theory Spec2Isabelle
  imports Main
begin

section \<open>The file-info job (src/core/fileinfojob.cpp)\<close>

text \<open>
  \<^verbatim>\<open>FileInfoJob\<close> holds the list of paths it was constructed with (\<^verbatim>\<open>paths_\<close>, here
  \<open>paths\<close>) and the list of file infos it has collected (\<^verbatim>\<open>results_\<close>, here \<open>results\<close>,
  which the method \<^verbatim>\<open>files()\<close> returns). The signals it emits are recorded, in
  emission order, in the field \<open>emitted\<close>.
\<close>

datatype ('p, 'fi) job_signal = GotInfo 'p 'fi | Finished

record ('p, 'fi) FileInfoJob =
  paths :: "'p list"
  results :: "'fi list"
  emitted :: "('p, 'fi) job_signal list"

text \<open>
  What \<^verbatim>\<open>run()\<close> reads from outside the job. The cancellation flag is set by another
  thread, so \<open>isCancelled k\<close> is the answer of the call of \<^verbatim>\<open>isCancelled()\<close> made
  by loop iteration \<open>k\<close> (counted from 0). \<open>g_file_query_info k path\<close> is what the
  query of iteration \<open>k\<close> returns, \<open>None\<close> being the null pointer of a failed query.
  \<open>make_FileInfo\<close> is the constructor \<^verbatim>\<open>FileInfo(inf)\<close>.
\<close>

record ('p, 'gi, 'fi) job_env =
  isCancelled :: "nat \<Rightarrow> bool"
  g_file_query_info :: "nat \<Rightarrow> 'p \<Rightarrow> 'gi option"
  make_FileInfo :: "'gi option \<Rightarrow> 'fi"

text \<open>The body of the range-based for loop of \<^verbatim>\<open>run()\<close>, for the path of iteration \<open>k\<close>.\<close>

definition run_body ::
  "('p, 'gi, 'fi) job_env \<Rightarrow> nat \<Rightarrow> 'p \<Rightarrow> ('p, 'fi) FileInfoJob \<Rightarrow> ('p, 'fi) FileInfoJob" where
  "run_body env k path j =
     (if \<not> isCancelled env k then
        (let inf = g_file_query_info env k path;
             fileInfo = make_FileInfo env inf
         in j\<lparr>results := results j @ [fileInfo],
               emitted := emitted j @ [GotInfo path fileInfo]\<rparr>)
      else j)"

fun run_loop ::
  "('p, 'gi, 'fi) job_env \<Rightarrow> nat \<Rightarrow> 'p list \<Rightarrow> ('p, 'fi) FileInfoJob \<Rightarrow> ('p, 'fi) FileInfoJob" where
  "run_loop env k [] j = j"
| "run_loop env k (path # rest) j = run_loop env (Suc k) rest (run_body env k path j)"

definition run :: "('p, 'gi, 'fi) job_env \<Rightarrow> ('p, 'fi) FileInfoJob \<Rightarrow> ('p, 'fi) FileInfoJob" where
  "run env j = (let j' = run_loop env 0 (paths j) j in j'\<lparr>emitted := emitted j' @ [Finished]\<rparr>)"

text \<open>
  The early-exit reading of the cancellation flag, written from the spec's words ("a
  single-threaded scan with an early-exit cancellation flag"): the loop is left at the
  first check that finds the job cancelled.
\<close>

fun run_break_loop ::
  "('p, 'gi, 'fi) job_env \<Rightarrow> nat \<Rightarrow> 'p list \<Rightarrow> ('p, 'fi) FileInfoJob \<Rightarrow> ('p, 'fi) FileInfoJob" where
  "run_break_loop env k [] j = j"
| "run_break_loop env k (path # rest) j =
     (if isCancelled env k then j
      else (let inf = g_file_query_info env k path;
                fileInfo = make_FileInfo env inf
            in run_break_loop env (Suc k) rest
                 (j\<lparr>results := results j @ [fileInfo],
                    emitted := emitted j @ [GotInfo path fileInfo]\<rparr>)))"

definition run_break :: "('p, 'gi, 'fi) job_env \<Rightarrow> ('p, 'fi) FileInfoJob \<Rightarrow> ('p, 'fi) FileInfoJob" where
  "run_break env j =
     (let j' = run_break_loop env 0 (paths j) j in j'\<lparr>emitted := emitted j' @ [Finished]\<rparr>)"

text \<open>The flag is monotone: once a check has found the job cancelled, every later one does.\<close>

definition monotone_flag :: "(nat \<Rightarrow> bool) \<Rightarrow> bool" where
  "monotone_flag c = (\<forall>k. c k \<longrightarrow> c (Suc k))"

text \<open>
  The iterations of a run over \<open>paths\<close> whose first iteration has number \<open>k\<close>: each path
  paired with its iteration number, in list order; and those of them that the
  cancellation check lets through.
\<close>

fun iterations :: "nat \<Rightarrow> 'p list \<Rightarrow> (nat \<times> 'p) list" where
  "iterations k [] = []"
| "iterations k (p # ps) = (k, p) # iterations (Suc k) ps"

definition live :: "('p, 'gi, 'fi) job_env \<Rightarrow> nat \<Rightarrow> 'p list \<Rightarrow> (nat \<times> 'p) list" where
  "live env k ps = filter (\<lambda>(i, p). \<not> isCancelled env i) (iterations k ps)"

definition info_at :: "('p, 'gi, 'fi) job_env \<Rightarrow> nat \<times> 'p \<Rightarrow> 'fi" where
  "info_at env = (\<lambda>(i, p). make_FileInfo env (g_file_query_info env i p))"

definition signal_at :: "('p, 'gi, 'fi) job_env \<Rightarrow> nat \<times> 'p \<Rightarrow> ('p, 'fi) job_signal" where
  "signal_at env = (\<lambda>(i, p). GotInfo p (info_at env (i, p)))"

section \<open>Strings of the toolkit\<close>

text \<open>
  A \<^verbatim>\<open>QString\<close> is modelled by a \<open>string\<close>. The functions below are the operations of
  \<^verbatim>\<open>QString\<close>, \<^verbatim>\<open>QChar\<close> and \<^verbatim>\<open>QRegExp\<close> that the dialog calls on the text of its
  widgets; indices are \<open>int\<close>, with \<open>-1\<close> for "not found", as in the toolkit.
\<close>

definition dquote :: char where
  "dquote = CHR 0x22"

definition isSpace :: "char \<Rightarrow> bool" where
  "isSpace c = (c \<in> set [CHR 0x20, CHR 0x09, CHR 0x0A, CHR 0x0B, CHR 0x0C, CHR 0x0D,
                          CHR 0x85, CHR 0xA0])"

fun index_of :: "char \<Rightarrow> string \<Rightarrow> nat option" where
  "index_of c [] = None"
| "index_of c (x # xs) = (if x = c then Some 0 else map_option Suc (index_of c xs))"

definition indexOf :: "string \<Rightarrow> char \<Rightarrow> int" where
  "indexOf s c = (case index_of c s of None \<Rightarrow> - 1 | Some i \<Rightarrow> int i)"

definition indexOf_from :: "string \<Rightarrow> char \<Rightarrow> int \<Rightarrow> int" where
  "indexOf_from s c from =
     (case index_of c (drop (nat from) s) of None \<Rightarrow> - 1 | Some i \<Rightarrow> from + int i)"

definition lastIndexOf :: "string \<Rightarrow> char \<Rightarrow> int" where
  "lastIndexOf s c =
     (case index_of c (rev s) of None \<Rightarrow> - 1 | Some i \<Rightarrow> int (length s) - 1 - int i)"

text \<open>\<^verbatim>\<open>QString::mid(position, n)\<close>: a negative \<open>n\<close> asks for the rest of the string.\<close>

definition mid :: "string \<Rightarrow> int \<Rightarrow> int \<Rightarrow> string" where
  "mid s position n =
     (let len = int (length s) in
      if position > len then []
      else if position < 0 then
        (if n < 0 \<or> n + position \<ge> len then s
         else if n + position \<le> 0 then []
         else take (nat (n + position)) s)
      else if n < 0 \<or> n > len - position then drop (nat position) s
      else take (nat n) (drop (nat position) s))"

text \<open>
  The separator of \<^verbatim>\<open>accept()\<close> is the regular expression \<^verbatim>\<open>"\s+"\<close>: a double quote,
  one or more white-space characters, a double quote. \<open>match_sep s\<close> is what follows
  the separator when \<open>s\<close> starts with one. \<open>split_sep\<close> is \<^verbatim>\<open>QString::split\<close> with this
  separator (empty parts are kept): \<open>acc\<close> holds, reversed, the part read so far.
\<close>

definition match_sep :: "string \<Rightarrow> string option" where
  "match_sep s =
     (case s of
        [] \<Rightarrow> None
      | c # cs \<Rightarrow>
          if c \<noteq> dquote \<or> takeWhile isSpace cs = [] then None
          else (case dropWhile isSpace cs of
                  [] \<Rightarrow> None
                | r # rs \<Rightarrow> if r = dquote then Some rs else None))"

lemma match_sep_shorter: "match_sep s = Some rest \<Longrightarrow> length rest < length s"
proof -
  assume m: "match_sep s = Some rest"
  then obtain c cs where s: "s = c # cs"
    by (cases s) (simp_all add: match_sep_def)
  from m s obtain r where "dropWhile isSpace cs = r # rest"
    by (auto simp add: match_sep_def split: if_splits list.splits)
  then have "length (r # rest) \<le> length cs"
    using length_dropWhile_le [of isSpace cs] by simp
  with s show ?thesis by simp
qed

function split_sep :: "string \<Rightarrow> string \<Rightarrow> string list" where
  "split_sep acc [] = [rev acc]"
| "split_sep acc (c # cs) =
     (case match_sep (c # cs) of
        Some rest \<Rightarrow> rev acc # split_sep [] rest
      | None \<Rightarrow> split_sep (c # acc) cs)"
  by pat_completeness auto
termination
  by (relation "measure (\<lambda>(acc, s). length s)") (auto dest: match_sep_shorter)

text \<open>\<^verbatim>\<open>QString::split(QChar)\<close>, empty parts kept.\<close>

fun split_char :: "char \<Rightarrow> string \<Rightarrow> string list" where
  "split_char c [] = [[]]"
| "split_char c (x # xs) =
     (if x = c then [] # split_char c xs
      else (case split_char c xs of
              [] \<Rightarrow> [[x]]
            | w # ws \<Rightarrow> (x # w) # ws))"

text \<open>
  \<^verbatim>\<open>QString::simplified()\<close>: white space is removed at both ends and every inner run
  of white space becomes one space.
\<close>

function qwords :: "string \<Rightarrow> string list" where
  "qwords [] = []"
| "qwords (c # cs) =
     (if isSpace c then qwords cs
      else (c # takeWhile (\<lambda>x. \<not> isSpace x) cs) # qwords (dropWhile (\<lambda>x. \<not> isSpace x) cs))"
  by pat_completeness auto
termination
  by (relation "measure length") (auto simp add: length_dropWhile_le less_Suc_eq_le)

fun join_space :: "string list \<Rightarrow> string" where
  "join_space [] = []"
| "join_space [w] = w"
| "join_space (w # ws) = w @ CHR 0x20 # join_space ws"

definition simplified :: "string \<Rightarrow> string" where
  "simplified s = join_space (qwords s)"

section \<open>The file dialog (filedialog.cpp)\<close>

subsection \<open>Data\<close>

text \<open>
  The enumerations of the toolkit that the dialog uses, with their enumerators. A value
  that is none of the enumerators (the \<^verbatim>\<open>default\<close> branch of the source's \<^verbatim>\<open>switch\<close>
  statements, which does nothing) is not a value of these types.
\<close>

datatype FileMode = AnyFile | ExistingFile | Directory | ExistingFiles | DirectoryOnly

datatype AcceptMode = AcceptOpen | AcceptSave

datatype DialogLabel = LookIn | FileName | FileType | Accept | Reject

datatype ViewMode = IconMode | CompactMode | DetailedListMode | ThumbnailMode

datatype SelectionMode =
  NoSelection | SingleSelection | MultiSelection | ExtendedSelection | ContiguousSelection

datatype ClickType = ActivatedClick | MiddleClick | ContextMenuClick

text \<open>The sender of a \<^verbatim>\<open>toggled\<close> signal: one of the four view-mode actions, or another object.\<close>

datatype Sender =
  IconViewAction | ThumbnailViewAction | CompactViewAction | DetailedViewAction | OtherSender

text \<open>
  What the dialog reads of a \<^verbatim>\<open>FileInfo\<close>: the results of its methods \<^verbatim>\<open>path()\<close> (here
  \<open>fi_path\<close>), \<^verbatim>\<open>isDir()\<close>, \<^verbatim>\<open>isShortcut()\<close> and \<^verbatim>\<open>displayName()\<close>.
\<close>

record 'p FileInfo =
  fi_path :: 'p
  isDir :: bool
  isShortcut :: bool
  displayName :: string

text \<open>
  The functions of the toolkit and of the virtual file system that the dialog calls and
  the source file does not define. \<open>'p\<close> is the type of file paths (\<^verbatim>\<open>FilePath\<close>), \<open>'u\<close> the
  type of URLs (\<^verbatim>\<open>QUrl\<close>).
  \<^item> \<open>isValid\<close>, \<open>child\<close>, \<open>baseName\<close>, \<open>path_displayName\<close>: the methods of \<^verbatim>\<open>FilePath\<close>;
    \<open>nullPath\<close> is the default-constructed path.
  \<^item> \<open>urlFromEncoded p\<close> is \<^verbatim>\<open>QUrl::fromEncoded(p.uri().get())\<close>, \<open>urlFromString p\<close> is
    \<^verbatim>\<open>QUrl{p.uri().get()}\<close>, \<open>nullUrl\<close> is the default-constructed URL.
  \<^item> \<open>pathListFromQUrls\<close>: the function of that name.
  \<^item> \<open>exactMatch glob name\<close>: \<^verbatim>\<open>QRegExp(glob, Qt::CaseInsensitive, QRegExp::Wildcard).exactMatch(name)\<close>.
  \<^item> \<open>childSelectionMode mode sm\<close>: the selection mode of the folder view's child view
    after \<^verbatim>\<open>FolderView::setViewMode(mode)\<close>, when it was \<open>sm\<close> before (the folder view
    may replace its child view).
  \<^item> \<open>mimeComment\<close>, \<open>mimeSuffixes\<close>: comment and suffixes of the MIME type of a name in
    \<^verbatim>\<open>QMimeDatabase\<close>.
\<close>

record ('p, 'u) toolkit =
  isValid :: "'p \<Rightarrow> bool"
  nullPath :: 'p
  child :: "'p \<Rightarrow> string \<Rightarrow> 'p"
  baseName :: "'p \<Rightarrow> string"
  path_displayName :: "'p \<Rightarrow> string"
  urlFromEncoded :: "'p \<Rightarrow> 'u"
  urlFromString :: "'p \<Rightarrow> 'u"
  nullUrl :: 'u
  pathListFromQUrls :: "'u list \<Rightarrow> 'p list"
  exactMatch :: "string \<Rightarrow> string \<Rightarrow> bool"
  childSelectionMode :: "ViewMode \<Rightarrow> SelectionMode \<Rightarrow> SelectionMode"
  mimeComment :: "string \<Rightarrow> string"
  mimeSuffixes :: "string \<Rightarrow> string list"

text \<open>
  The state of the widgets built by \<^verbatim>\<open>Ui::FileDialog::setupUi\<close> that the dialog reads
  or writes: the text of the file-name entry, of the three labels and of the two
  buttons, whether the Ok button is enabled, the view mode of the folder view, the
  selection mode of its child view, and the checked view-mode action.
\<close>

record ui_FileDialog =
  fileName_text :: string
  lookInLabel_text :: string
  fileNameLabel_text :: string
  fileTypeLabel_text :: string
  okButton_text :: string
  cancelButton_text :: string
  okButton_enabled :: bool
  folderView_viewMode :: ViewMode
  selectionMode :: SelectionMode
  checkedAction :: "Sender option"

text \<open>
  What the dialog does that is seen from outside, in order: the signals it emits, the
  message boxes it shows, the calls of \<^verbatim>\<open>QDialog::accept\<close> and \<^verbatim>\<open>QDialog::reject\<close>,
  the file-info jobs it starts (with their path lists), and the calls that enable or
  disable the Ok button.
\<close>

datatype ('p, 'u) effect =
  MessageBox_critical string string
| FilesSelected "'u list"
| FileSelected 'u
| QDialog_accept
| QDialog_reject
| DirectoryEntered
| CurrentChanged 'u
| FilterSelected string
| RunAsync "'p list"
| OkButton_setEnabled bool

text \<open>
  The members of \<^verbatim>\<open>FileDialog\<close> (the source's names end in an underscore);
  \<open>patterns\<close> is \<^verbatim>\<open>modelFilter_.patterns_\<close>, each regular expression given by its glob.
  The selector \<open>selectedFiles\<close> is also the method \<^verbatim>\<open>selectedFiles()\<close>, which returns
  the member.
\<close>

record ('p, 'u) FileDialog =
  ui :: ui_FileDialog
  viewMode :: ViewMode
  fileMode :: FileMode
  acceptMode :: AcceptMode
  filters :: nat
  directoryPath :: 'p
  selectedFiles :: "'u list"
  defaultSuffix :: string
  nameFilters :: "string list"
  mimeTypeFilters :: "string list"
  currentNameFilter :: string
  patterns :: "string list"
  effects :: "('p, 'u) effect list"

definition emit :: "('p, 'u) effect \<Rightarrow> ('p, 'u) FileDialog \<Rightarrow> ('p, 'u) FileDialog" where
  "emit e d = d\<lparr>effects := effects d @ [e]\<rparr>"

subsection \<open>Selection mode, view mode, file mode\<close>

definition updateSelectionMode :: "('p, 'u) FileDialog \<Rightarrow> ('p, 'u) FileDialog" where
  "updateSelectionMode d =
     d\<lparr>ui := (ui d)\<lparr>selectionMode :=
          (if fileMode d = ExistingFiles then ExtendedSelection else SingleSelection)\<rparr>\<rparr>"

text \<open>\<^verbatim>\<open>ui->folderView->setViewMode(mode)\<close>.\<close>

definition folderView_setViewMode ::
  "('p, 'u) toolkit \<Rightarrow> ViewMode \<Rightarrow> ('p, 'u) FileDialog \<Rightarrow> ('p, 'u) FileDialog" where
  "folderView_setViewMode tk mode d =
     d\<lparr>ui := (ui d)\<lparr>folderView_viewMode := mode,
                     selectionMode := childSelectionMode tk mode (selectionMode (ui d))\<rparr>\<rparr>"

text \<open>
  \<^verbatim>\<open>setViewMode\<close> checks the action of the new mode. When that action was not checked
  before, the toolkit calls the slot \<^verbatim>\<open>onViewModeToggled\<close> for it, which calls
  \<^verbatim>\<open>setViewMode\<close> with the same mode once more; the action is checked by then, so the
  inner call stops there and leaves the state as the outer one does.
\<close>

definition setViewMode ::
  "('p, 'u) toolkit \<Rightarrow> ViewMode \<Rightarrow> ('p, 'u) FileDialog \<Rightarrow> ('p, 'u) FileDialog" where
  "setViewMode tk mode d =
     (let d = d\<lparr>viewMode := mode\<rparr>;
          d = folderView_setViewMode tk mode d;
          d = (case mode of
                 IconMode \<Rightarrow> d\<lparr>ui := (ui d)\<lparr>checkedAction := Some IconViewAction\<rparr>\<rparr>
               | ThumbnailMode \<Rightarrow> d\<lparr>ui := (ui d)\<lparr>checkedAction := Some ThumbnailViewAction\<rparr>\<rparr>
               | CompactMode \<Rightarrow> d\<lparr>ui := (ui d)\<lparr>checkedAction := Some CompactViewAction\<rparr>\<rparr>
               | DetailedListMode \<Rightarrow> d\<lparr>ui := (ui d)\<lparr>checkedAction := Some DetailedViewAction\<rparr>\<rparr>)
      in updateSelectionMode d)"

definition onViewModeToggled ::
  "('p, 'u) toolkit \<Rightarrow> bool \<Rightarrow> Sender \<Rightarrow> ('p, 'u) FileDialog \<Rightarrow> ('p, 'u) FileDialog" where
  "onViewModeToggled tk active action d =
     (if active then
        (case action of
           IconViewAction \<Rightarrow> setViewMode tk IconMode d
         | ThumbnailViewAction \<Rightarrow> setViewMode tk ThumbnailMode d
         | CompactViewAction \<Rightarrow> setViewMode tk CompactMode d
         | DetailedViewAction \<Rightarrow> setViewMode tk DetailedListMode d
         | OtherSender \<Rightarrow> d)
      else d)"

definition setFileMode :: "FileMode \<Rightarrow> ('p, 'u) FileDialog \<Rightarrow> ('p, 'u) FileDialog" where
  "setFileMode mode d =
     (let mode = (if mode = DirectoryOnly then Directory else mode);
          d = d\<lparr>fileMode := mode\<rparr>
      in updateSelectionMode d)"

definition setAcceptMode :: "AcceptMode \<Rightarrow> ('p, 'u) FileDialog \<Rightarrow> ('p, 'u) FileDialog" where
  "setAcceptMode mode d = d\<lparr>acceptMode := mode\<rparr>"

definition setFilter :: "nat \<Rightarrow> ('p, 'u) FileDialog \<Rightarrow> ('p, 'u) FileDialog" where
  "setFilter fs d = d\<lparr>filters := fs\<rparr>"

subsection \<open>Directory and selection\<close>

text \<open>
  \<^verbatim>\<open>setDirectoryPath\<close> stores the directory and emits \<^verbatim>\<open>directoryEntered\<close>. The URL it
  passes is computed from the parameter after the parameter has been moved from, so the
  model does not say which URL it is.
\<close>

definition setDirectoryPath :: "'p \<Rightarrow> ('p, 'u) FileDialog \<Rightarrow> ('p, 'u) FileDialog" where
  "setDirectoryPath dir d = emit DirectoryEntered (d\<lparr>directoryPath := dir\<rparr>)"

definition directory :: "('p, 'u) toolkit \<Rightarrow> ('p, 'u) FileDialog \<Rightarrow> 'u" where
  "directory tk d = urlFromString tk (directoryPath d)"

definition onCurrentRowChanged ::
  "('p, 'u) toolkit \<Rightarrow> 'p FileInfo option \<Rightarrow> ('p, 'u) FileDialog \<Rightarrow> ('p, 'u) FileDialog" where
  "onCurrentRowChanged tk current d =
     (let currentUrl = (case current of
                          None \<Rightarrow> nullUrl tk
                        | Some fi \<Rightarrow> urlFromEncoded tk (fi_path fi))
      in emit (CurrentChanged currentUrl) d)"

text \<open>
  The loop of \<^verbatim>\<open>onSelectionChanged\<close> over the selected files; \<open>fileNames\<close> is the text
  built so far. The first two branches are the loop's \<^verbatim>\<open>continue\<close>, the last one its
  \<^verbatim>\<open>break\<close>.
\<close>

fun selection_loop ::
  "('p, 'u) toolkit \<Rightarrow> FileMode \<Rightarrow> bool \<Rightarrow> 'p FileInfo list \<Rightarrow> string \<Rightarrow> string" where
  "selection_loop tk mode multiple [] fileNames = fileNames"
| "selection_loop tk mode multiple (fileInfo # rest) fileNames =
     (if mode = Directory \<and> \<not> isDir fileInfo then selection_loop tk mode multiple rest fileNames
      else if mode \<noteq> Directory \<and> isDir fileInfo then selection_loop tk mode multiple rest fileNames
      else
        (let name = baseName tk (fi_path fileInfo) in
         if multiple then
           selection_loop tk mode multiple rest
             ((if fileNames \<noteq> [] then fileNames @ [CHR 0x20] else fileNames)
                @ [dquote] @ name @ [dquote])
         else name))"

definition onSelectionChanged ::
  "('p, 'u) toolkit \<Rightarrow> 'p FileInfo list \<Rightarrow> ('p, 'u) FileDialog \<Rightarrow> ('p, 'u) FileDialog" where
  "onSelectionChanged tk selFiles d =
     (let multiple = (length selFiles > 1);
          fileNames = selection_loop tk (fileMode d) multiple selFiles []
      in d\<lparr>ui := (ui d)\<lparr>fileName_text := fileNames\<rparr>\<rparr>)"

text \<open>
  \<^verbatim>\<open>selectFilePath\<close> selects an index in the view's selection model. When that changes
  the selection, the toolkit calls the slot \<^verbatim>\<open>onSelectionChanged\<close> before it returns:
  \<open>sel\<close> is the view's selection then, \<open>None\<close> when the selection did not change.
\<close>

definition selectFilePath ::
  "('p, 'u) toolkit \<Rightarrow> 'p FileInfo list option \<Rightarrow> ('p, 'u) FileDialog \<Rightarrow> ('p, 'u) FileDialog" where
  "selectFilePath tk sel d =
     (case sel of None \<Rightarrow> d | Some selFiles \<Rightarrow> onSelectionChanged tk selFiles d)"

subsection \<open>Accepting\<close>

text \<open>
  The loop of \<^verbatim>\<open>accept()\<close> over the parsed names: the default suffix is added to a
  name without a dot, and the URL of the name's full path is appended to the member
  \<^verbatim>\<open>selectedFiles_\<close>.
\<close>

definition accept_name ::
  "('p, 'u) toolkit \<Rightarrow> ('p, 'u) FileDialog \<Rightarrow> string \<Rightarrow> ('p, 'u) FileDialog" where
  "accept_name tk d name =
     (let name = (if defaultSuffix d \<noteq> [] \<and> lastIndexOf name (CHR ''.'') = - 1
                  then name @ [CHR ''.''] @ defaultSuffix d else name);
          fullPath = child tk (directoryPath d) name
      in d\<lparr>selectedFiles := selectedFiles d @ [urlFromEncoded tk fullPath]\<rparr>)"

definition parseNames :: "string \<Rightarrow> string list" where
  "parseNames fileNames =
     (let firstQuote = indexOf fileNames dquote;
          lastQuote = lastIndexOf fileNames dquote
      in if firstQuote \<noteq> - 1 \<and> lastQuote \<noteq> - 1
         then split_sep [] (mid fileNames (firstQuote + 1) (lastQuote - firstQuote - 1))
         else [fileNames])"

text \<open>\<^verbatim>\<open>ui->buttonBox->button(QDialogButtonBox::Ok)->setEnabled(b)\<close>.\<close>

definition okButton_setEnabled :: "bool \<Rightarrow> ('p, 'u) FileDialog \<Rightarrow> ('p, 'u) FileDialog" where
  "okButton_setEnabled b d =
     emit (OkButton_setEnabled b) (d\<lparr>ui := (ui d)\<lparr>okButton_enabled := b\<rparr>\<rparr>)"

text \<open>
  \<^verbatim>\<open>accept()\<close>. With an empty file name outside the directory mode it shows a message
  box and returns. Otherwise it fills \<^verbatim>\<open>selectedFiles_\<close> and goes on to its last part,
  \<open>accept_check\<close>: it disables the Ok button and starts a \<^verbatim>\<open>FileInfoJob\<close> on the
  paths of the selected files; the job's \<^verbatim>\<open>finished\<close> signal is connected to
  \<^verbatim>\<open>onFileInfoJobFinished\<close>.
\<close>

definition accept_check :: "('p, 'u) toolkit \<Rightarrow> ('p, 'u) FileDialog \<Rightarrow> ('p, 'u) FileDialog" where
  "accept_check tk d =
     (let d = okButton_setEnabled False d;
          pathList = pathListFromQUrls tk (selectedFiles d)
      in emit (RunAsync pathList) d)"

definition accept :: "('p, 'u) toolkit \<Rightarrow> ('p, 'u) FileDialog \<Rightarrow> ('p, 'u) FileDialog" where
  "accept tk d =
     (let d = d\<lparr>selectedFiles := []\<rparr>;
          fileNames = fileName_text (ui d)
      in if fileNames = [] then
           (if fileMode d = Directory
            then accept_check tk (d\<lparr>selectedFiles := selectedFiles d @ [directory tk d]\<rparr>)
            else emit (MessageBox_critical ''Error'' ''Please select a file'') d)
         else accept_check tk (foldl (accept_name tk) d (parseNames fileNames)))"

definition reject :: "('p, 'u) FileDialog \<Rightarrow> ('p, 'u) FileDialog" where
  "reject d = emit QDialog_reject d"

definition doAccept :: "('p, 'u) FileDialog \<Rightarrow> ('p, 'u) FileDialog" where
  "doAccept d =
     (let d = emit (FilesSelected (selectedFiles d)) d;
          d = (if length (selectedFiles d) = 1 then emit (FileSelected (selectedFiles d ! 0)) d
               else d)
      in emit QDialog_accept d)"

text \<open>
  The validation loop of \<^verbatim>\<open>onFileInfoJobFinished\<close>, from index \<open>i\<close> on. Its value is the
  string \<^verbatim>\<open>error\<close> at the end of the loop: empty when the loop runs to its end, the
  message of the failed check when it is left by \<^verbatim>\<open>break\<close>. \<open>ps\<close> is \<^verbatim>\<open>job->paths()\<close>,
  \<open>files\<close> is \<^verbatim>\<open>job->files()\<close>. In the branch for a path without file info in the
  mode \<open>AnyFile\<close>, the source increments \<open>i\<close> and continues, and the loop header
  increments it again. The messages are the source's texts, untranslated (\<^verbatim>\<open>tr\<close> is
  taken as the identity).
\<close>

function validate_loop ::
  "('p, 'u) toolkit \<Rightarrow> FileMode \<Rightarrow> 'p list \<Rightarrow> 'p FileInfo list \<Rightarrow> nat \<Rightarrow> string" where
  "validate_loop tk mode ps files i =
     (if i < length ps then
        (let path = ps ! i in
         if i \<ge> length files \<or> fi_path (files ! i) \<noteq> path then
           (if mode \<noteq> AnyFile then
              ''Path '' @ [dquote] @ path_displayName tk path @ [dquote] @ '' does not exist''
            else validate_loop tk mode ps files (i + 1 + 1))
         else
           (let file = files ! i in
            if mode = Directory then
              (if \<not> isDir file then
                 [dquote] @ path_displayName tk path @ [dquote] @ '' is not a directory''
               else validate_loop tk mode ps files (i + 1))
            else if isDir file \<or> isShortcut file then
              [dquote] @ path_displayName tk path @ [dquote] @ '' is not a file''
            else validate_loop tk mode ps files (i + 1)))
      else [])"
  by pat_completeness auto
termination
  by (relation "measure (\<lambda>(tk, mode, ps, files, i). length ps - i)") auto

text \<open>
  The indices at which the body of the validation loop runs when the loop starts at
  index \<open>i\<close>, in order: the same control flow as \<open>validate_loop\<close>, recording the index of
  each iteration instead of the error.
\<close>

function validate_visits ::
  "('p, 'u) toolkit \<Rightarrow> FileMode \<Rightarrow> 'p list \<Rightarrow> 'p FileInfo list \<Rightarrow> nat \<Rightarrow> nat list" where
  "validate_visits tk mode ps files i =
     (if i < length ps then
        i # (let path = ps ! i in
             if i \<ge> length files \<or> fi_path (files ! i) \<noteq> path then
               (if mode \<noteq> AnyFile then []
                else validate_visits tk mode ps files (i + 1 + 1))
             else
               (let file = files ! i in
                if mode = Directory then
                  (if \<not> isDir file then []
                   else validate_visits tk mode ps files (i + 1))
                else if isDir file \<or> isShortcut file then []
                else validate_visits tk mode ps files (i + 1)))
      else [])"
  by pat_completeness auto
termination
  by (relation "measure (\<lambda>(tk, mode, ps, files, i). length ps - i)") auto

text \<open>
  One iteration of the loop at index \<open>i\<close>: \<open>None\<close> when it leaves the loop by
  \<^verbatim>\<open>break\<close>, otherwise the index of the next iteration.
\<close>

definition loop_step :: "FileMode \<Rightarrow> 'p list \<Rightarrow> 'p FileInfo list \<Rightarrow> nat \<Rightarrow> nat option" where
  "loop_step mode ps files i =
     (if i \<ge> length files \<or> fi_path (files ! i) \<noteq> ps ! i then
        (if mode \<noteq> AnyFile then None else Some (i + 1 + 1))
      else if mode = Directory then (if \<not> isDir (files ! i) then None else Some (i + 1))
      else if isDir (files ! i) \<or> isShortcut (files ! i) then None
      else Some (i + 1))"

text \<open>
  The validation of one path as the specification words it: the path exists (it has a
  file info with its path at its index) unless the file mode is \<open>AnyFile\<close>; a path that
  exists is a directory in the directory mode, and neither a directory nor a shortcut
  in every other mode. \<open>all_pass\<close> says that every path of the job passes.
\<close>

definition path_passes :: "FileMode \<Rightarrow> 'p list \<Rightarrow> 'p FileInfo list \<Rightarrow> nat \<Rightarrow> bool" where
  "path_passes mode ps files i =
     (if i < length files \<and> fi_path (files ! i) = ps ! i then
        (if mode = Directory then isDir (files ! i)
         else \<not> isDir (files ! i) \<and> \<not> isShortcut (files ! i))
      else mode = AnyFile)"

definition all_pass :: "FileMode \<Rightarrow> 'p list \<Rightarrow> 'p FileInfo list \<Rightarrow> bool" where
  "all_pass mode ps files = list_all (path_passes mode ps files) [0 ..< length ps]"

text \<open>
  \<^verbatim>\<open>onFileInfoJobFinished\<close>; \<open>cancelled\<close> is \<^verbatim>\<open>job->isCancelled()\<close> when the slot runs.
\<close>

definition onFileInfoJobFinished ::
  "('p, 'u) toolkit \<Rightarrow> bool \<Rightarrow> ('p, 'p FileInfo) FileInfoJob \<Rightarrow> ('p, 'u) FileDialog
     \<Rightarrow> ('p, 'u) FileDialog" where
  "onFileInfoJobFinished tk cancelled job d =
     (let d = (if cancelled then reject (d\<lparr>selectedFiles := []\<rparr>)
               else
                 (let error = validate_loop tk (fileMode d) (paths job) (results job) 0
                  in if error = [] then doAccept d
                     else (emit (MessageBox_critical ''Error'' error) d)\<lparr>selectedFiles := []\<rparr>))
      in okButton_setEnabled True d)"

definition onFileClicked ::
  "('p, 'u) toolkit \<Rightarrow> ClickType \<Rightarrow> 'p FileInfo option \<Rightarrow> 'p FileInfo list option
     \<Rightarrow> ('p, 'u) FileDialog \<Rightarrow> ('p, 'u) FileDialog" where
  "onFileClicked tk type file sel d =
     (case file of
        None \<Rightarrow> d
      | Some f \<Rightarrow>
          if type = ActivatedClick then
            (if isDir f then
               (let d = setDirectoryPath (fi_path f) d
                in if fileMode d = Directory then d\<lparr>ui := (ui d)\<lparr>fileName_text := []\<rparr>\<rparr> else d)
             else if fileMode d \<noteq> Directory then accept tk (selectFilePath tk sel d)
             else d)
          else d)"

subsection \<open>Name filters\<close>

text \<open>
  \<^verbatim>\<open>FileDialogFilter::update\<close>: the globs of the current name filter, taken from
  between its parentheses when it has an opening one.
\<close>

definition update :: "('p, 'u) FileDialog \<Rightarrow> ('p, 'u) FileDialog" where
  "update d =
     (let nameFilter = currentNameFilter d;
          left = indexOf nameFilter (CHR ''('');
          nameFilter =
            (if left \<noteq> - 1 then
               (let left = left + 1;
                    right = indexOf_from nameFilter (CHR '')'') left;
                    right = (if right = - 1 then int (length nameFilter) else right)
                in mid nameFilter left (right - left))
             else nameFilter);
          globs = split_char (CHR 0x20) (simplified nameFilter)
      in d\<lparr>patterns := globs\<rparr>)"

definition selectNameFilter :: "string \<Rightarrow> ('p, 'u) FileDialog \<Rightarrow> ('p, 'u) FileDialog" where
  "selectNameFilter flt d =
     (if flt \<noteq> currentNameFilter d then
        emit (FilterSelected flt) (update (d\<lparr>currentNameFilter := flt\<rparr>))
      else d)"

text \<open>
  \<^verbatim>\<open>setNameFilters\<close> also refills the file-type combo box; when that changes the
  combo's current text, the toolkit calls \<^verbatim>\<open>selectNameFilter\<close> with it.
\<close>

definition setNameFilters :: "string list \<Rightarrow> ('p, 'u) FileDialog \<Rightarrow> ('p, 'u) FileDialog" where
  "setNameFilters fs d =
     (if fs = [] then d\<lparr>nameFilters := [''All Files (*)'']\<rparr> else d\<lparr>nameFilters := fs\<rparr>)"

definition mimeNameFilter :: "('p, 'u) toolkit \<Rightarrow> string \<Rightarrow> string" where
  "mimeNameFilter tk flt =
     (let nameFilter = mimeComment tk flt in
      if mimeSuffixes tk flt \<noteq> [] then
        (let nameFilter = foldl (\<lambda>nf suffix. nf @ ''*.'' @ suffix @ [CHR 0x20]) nameFilter
                            (mimeSuffixes tk flt)
         in nameFilter[length nameFilter - 1 := CHR '')''])
      else nameFilter)"

definition setMimeTypeFilters ::
  "('p, 'u) toolkit \<Rightarrow> string list \<Rightarrow> ('p, 'u) FileDialog \<Rightarrow> ('p, 'u) FileDialog" where
  "setMimeTypeFilters tk fs d =
     setNameFilters (map (mimeNameFilter tk) fs) (d\<lparr>mimeTypeFilters := fs\<rparr>)"

text \<open>
  \<^verbatim>\<open>FileDialogFilter::filterAcceptsRow\<close>; \<open>name_matched\<close> is its loop over the patterns.
\<close>

fun name_matched :: "('p, 'u) toolkit \<Rightarrow> string list \<Rightarrow> string \<Rightarrow> bool" where
  "name_matched tk [] name = False"
| "name_matched tk (pattern # rest) name =
     (if exactMatch tk pattern name then True else name_matched tk rest name)"

definition filterAcceptsRow ::
  "('p, 'u) toolkit \<Rightarrow> ('p, 'u) FileDialog \<Rightarrow> 'p FileInfo \<Rightarrow> bool" where
  "filterAcceptsRow tk d info =
     (if fileMode d = Directory then
        (if \<not> isDir info then False
         else name_matched tk (patterns d) (displayName info))
      else
        (if isDir info then True
         else name_matched tk (patterns d) (displayName info)))"

subsection \<open>Labels\<close>

definition setLabelText ::
  "DialogLabel \<Rightarrow> string \<Rightarrow> ('p, 'u) FileDialog \<Rightarrow> ('p, 'u) FileDialog" where
  "setLabelText label text d =
     (case label of
        LookIn \<Rightarrow> d\<lparr>ui := (ui d)\<lparr>lookInLabel_text := text\<rparr>\<rparr>
      | FileName \<Rightarrow> d\<lparr>ui := (ui d)\<lparr>fileNameLabel_text := text\<rparr>\<rparr>
      | FileType \<Rightarrow> d\<lparr>ui := (ui d)\<lparr>fileTypeLabel_text := text\<rparr>\<rparr>
      | Accept \<Rightarrow> d\<lparr>ui := (ui d)\<lparr>okButton_text := text\<rparr>\<rparr>
      | Reject \<Rightarrow> d\<lparr>ui := (ui d)\<lparr>cancelButton_text := text\<rparr>\<rparr>)"

text \<open>
  \<^verbatim>\<open>labelText\<close> starts from an empty string \<^verbatim>\<open>text\<close> and returns it. The branches for
  the three labels assign the label's text to it; the branches for \<open>Accept\<close> and
  \<open>Reject\<close> read the button's text and do not assign it.
\<close>

definition labelText :: "DialogLabel \<Rightarrow> ('p, 'u) FileDialog \<Rightarrow> string" where
  "labelText label d =
     (let text = [] in
      case label of
        LookIn \<Rightarrow> lookInLabel_text (ui d)
      | FileName \<Rightarrow> fileNameLabel_text (ui d)
      | FileType \<Rightarrow> fileTypeLabel_text (ui d)
      | Accept \<Rightarrow> text
      | Reject \<Rightarrow> text)"

subsection \<open>Construction and operations\<close>

text \<open>
  The constructor; \<open>setupUi\<close> is the widget state that \<^verbatim>\<open>ui->setupUi(this)\<close> builds.
\<close>

definition FileDialog_new ::
  "('p, 'u) toolkit \<Rightarrow> ui_FileDialog \<Rightarrow> 'p \<Rightarrow> ('p, 'u) FileDialog" where
  "FileDialog_new tk setupUi dir =
     (let d = \<lparr>ui = setupUi, viewMode = DetailedListMode, fileMode = AnyFile,
               acceptMode = AcceptOpen, filters = 0, directoryPath = nullPath tk,
               selectedFiles = [], defaultSuffix = [], nameFilters = [],
               mimeTypeFilters = [], currentNameFilter = [], patterns = [], effects = []\<rparr>;
          d = folderView_setViewMode tk (viewMode d) d;
          d = updateSelectionMode d;
          d = setViewMode tk (viewMode d) d
      in if isValid tk dir then (setDirectoryPath dir d)\<lparr>directoryPath := dir\<rparr> else d)"

text \<open>
  The calls that the toolkit and the dialog's users make on a dialog: its public methods
  and its slots, each with its arguments and with what it reads from outside.
\<close>

datatype ('p, 'u) operation =
  Op_accept
| Op_reject
| Op_setDirectoryPath 'p
| Op_selectFilePath "'p FileInfo list option"
| Op_onCurrentRowChanged "'p FileInfo option"
| Op_onSelectionChanged "'p FileInfo list"
| Op_onFileClicked ClickType "'p FileInfo option" "'p FileInfo list option"
| Op_onViewModeToggled bool Sender
| Op_onFileInfoJobFinished bool "('p, 'p FileInfo) FileInfoJob"
| Op_selectNameFilter string
| Op_setFilter nat
| Op_setViewMode ViewMode
| Op_setFileMode FileMode
| Op_setAcceptMode AcceptMode
| Op_setNameFilters "string list"
| Op_setMimeTypeFilters "string list"
| Op_setLabelText DialogLabel string

fun apply_operation ::
  "('p, 'u) toolkit \<Rightarrow> ('p, 'u) FileDialog \<Rightarrow> ('p, 'u) operation \<Rightarrow> ('p, 'u) FileDialog" where
  "apply_operation tk d Op_accept = accept tk d"
| "apply_operation tk d Op_reject = reject d"
| "apply_operation tk d (Op_setDirectoryPath dir) = setDirectoryPath dir d"
| "apply_operation tk d (Op_selectFilePath sel) = selectFilePath tk sel d"
| "apply_operation tk d (Op_onCurrentRowChanged current) = onCurrentRowChanged tk current d"
| "apply_operation tk d (Op_onSelectionChanged selFiles) = onSelectionChanged tk selFiles d"
| "apply_operation tk d (Op_onFileClicked type file sel) = onFileClicked tk type file sel d"
| "apply_operation tk d (Op_onViewModeToggled active action) = onViewModeToggled tk active action d"
| "apply_operation tk d (Op_onFileInfoJobFinished cancelled job) =
     onFileInfoJobFinished tk cancelled job d"
| "apply_operation tk d (Op_selectNameFilter flt) = selectNameFilter flt d"
| "apply_operation tk d (Op_setFilter fs) = setFilter fs d"
| "apply_operation tk d (Op_setViewMode mode) = setViewMode tk mode d"
| "apply_operation tk d (Op_setFileMode mode) = setFileMode mode d"
| "apply_operation tk d (Op_setAcceptMode mode) = setAcceptMode mode d"
| "apply_operation tk d (Op_setNameFilters fs) = setNameFilters fs d"
| "apply_operation tk d (Op_setMimeTypeFilters fs) = setMimeTypeFilters tk fs d"
| "apply_operation tk d (Op_setLabelText label text) = setLabelText label text d"

definition run_operations ::
  "('p, 'u) toolkit \<Rightarrow> ('p, 'u) FileDialog \<Rightarrow> ('p, 'u) operation list \<Rightarrow> ('p, 'u) FileDialog" where
  "run_operations tk d ops = foldl (apply_operation tk) d ops"

text \<open>
  Jobs and their \<^verbatim>\<open>finished\<close> signals along a sequence of operations. \<open>jobs_started d\<close>
  counts the jobs the dialog has started so far, \<open>started_by tk d op\<close> those that the
  operation \<open>op\<close> starts in the state \<open>d\<close>. A call of \<^verbatim>\<open>onFileInfoJobFinished\<close> handles
  the \<^verbatim>\<open>finished\<close> signal of one job. Starting with \<open>n\<close> pending jobs (started, their
  signal not yet handled), \<open>pending_after tk d n ops\<close> is the number of pending jobs after
  the operations \<open>ops\<close>. \<open>one_job_at_a_time tk d n ops\<close> says that along \<open>ops\<close> a
  \<^verbatim>\<open>finished\<close> signal is handled only while a job is pending and that never more than
  one job is pending.
\<close>

fun is_RunAsync :: "('p, 'u) effect \<Rightarrow> bool" where
  "is_RunAsync (RunAsync pathList) = True"
| "is_RunAsync e = False"

definition jobs_started :: "('p, 'u) FileDialog \<Rightarrow> nat" where
  "jobs_started d = length (filter is_RunAsync (effects d))"

definition started_by ::
  "('p, 'u) toolkit \<Rightarrow> ('p, 'u) FileDialog \<Rightarrow> ('p, 'u) operation \<Rightarrow> nat" where
  "started_by tk d op = jobs_started (apply_operation tk d op) - jobs_started d"

fun is_finished :: "('p, 'u) operation \<Rightarrow> bool" where
  "is_finished (Op_onFileInfoJobFinished cancelled job) = True"
| "is_finished op = False"

definition pending_next ::
  "('p, 'u) toolkit \<Rightarrow> ('p, 'u) FileDialog \<Rightarrow> nat \<Rightarrow> ('p, 'u) operation \<Rightarrow> nat" where
  "pending_next tk d n op = n + started_by tk d op - (if is_finished op then 1 else 0)"

fun pending_after ::
  "('p, 'u) toolkit \<Rightarrow> ('p, 'u) FileDialog \<Rightarrow> nat \<Rightarrow> ('p, 'u) operation list \<Rightarrow> nat" where
  "pending_after tk d n [] = n"
| "pending_after tk d n (op # ops) =
     pending_after tk (apply_operation tk d op) (pending_next tk d n op) ops"

fun one_job_at_a_time ::
  "('p, 'u) toolkit \<Rightarrow> ('p, 'u) FileDialog \<Rightarrow> nat \<Rightarrow> ('p, 'u) operation list \<Rightarrow> bool" where
  "one_job_at_a_time tk d n [] = True"
| "one_job_at_a_time tk d n (op # ops) =
     ((if is_finished op then 0 < n else True) \<and>
      pending_next tk d n op \<le> 1 \<and>
      one_job_at_a_time tk (apply_operation tk d op) (pending_next tk d n op) ops)"

text \<open>The selection mode of the view is the one that the file mode asks for.\<close>

definition selection_ok :: "('p, 'u) FileDialog \<Rightarrow> bool" where
  "selection_ok d =
     (selectionMode (ui d) =
        (if fileMode d = ExistingFiles then ExtendedSelection else SingleSelection))"

subsection \<open>An instance of the toolkit\<close>

text \<open>
  A toolkit for the examples: paths and URLs are strings, a URL is its path after
  \<open>file://\<close>, and \<open>wildcard_match\<close> matches a glob of literal characters, \<open>?\<close> and \<open>*\<close>
  against a whole name, letters compared without case.
\<close>

definition to_lower :: "char \<Rightarrow> char" where
  "to_lower c =
     (case map_of (zip ''ABCDEFGHIJKLMNOPQRSTUVWXYZ'' ''abcdefghijklmnopqrstuvwxyz'') c of
        None \<Rightarrow> c
      | Some l \<Rightarrow> l)"

fun wildcard_match :: "string \<Rightarrow> string \<Rightarrow> bool" where
  "wildcard_match [] [] = True"
| "wildcard_match [] (c # cs) = False"
| "wildcard_match (g # gs) [] = (g = CHR ''*'' \<and> wildcard_match gs [])"
| "wildcard_match (g # gs) (c # cs) =
     (if g = CHR ''*'' then wildcard_match gs (c # cs) \<or> wildcard_match (g # gs) cs
      else if g = CHR ''?'' then wildcard_match gs cs
      else to_lower g = to_lower c \<and> wildcard_match gs cs)"

definition example_toolkit :: "(string, string) toolkit" where
  "example_toolkit =
     \<lparr>isValid = (\<lambda>p. p \<noteq> []), nullPath = [],
      child = (\<lambda>dir name. dir @ ''/'' @ name),
      baseName = (\<lambda>p. rev (takeWhile (\<lambda>c. c \<noteq> CHR ''/'') (rev p))),
      path_displayName = (\<lambda>p. p),
      urlFromEncoded = (\<lambda>p. ''file://'' @ p),
      urlFromString = (\<lambda>p. ''file://'' @ p),
      nullUrl = [],
      pathListFromQUrls = map (drop 7),
      exactMatch = wildcard_match,
      childSelectionMode = (\<lambda>mode sm. ExtendedSelection),
      mimeComment = (\<lambda>name. name),
      mimeSuffixes = (\<lambda>name. [])\<rparr>"

definition example_ui :: ui_FileDialog where
  "example_ui =
     \<lparr>fileName_text = [], lookInLabel_text = ''Look in:'', fileNameLabel_text = ''File name:'',
      fileTypeLabel_text = ''Files of type:'', okButton_text = ''OK'',
      cancelButton_text = ''Cancel'', okButton_enabled = True,
      folderView_viewMode = IconMode, selectionMode = NoSelection, checkedAction = None\<rparr>"

definition example_dialog :: "(string, string) FileDialog" where
  "example_dialog = FileDialog_new example_toolkit example_ui ''/home/u''"

text \<open>
  A file system for the examples: \<^verbatim>\<open>/home/u/docs\<close> is a directory, \<^verbatim>\<open>/home/u/a.txt\<close> a
  file, nothing else exists, and no job is cancelled. The file info made from a failed
  query has an empty path. \<open>example_typed text\<close> is the example dialog with \<open>text\<close> in
  its file-name entry, \<open>example_job pathList\<close> the job of these paths after its run.
\<close>

definition example_env :: "(string, string \<times> bool, string FileInfo) job_env" where
  "example_env =
     \<lparr>isCancelled = (\<lambda>k. False),
      g_file_query_info =
        (\<lambda>k p. if p = ''/home/u/docs'' then Some (''docs'', True)
               else if p = ''/home/u/a.txt'' then Some (''a.txt'', False)
               else None),
      make_FileInfo =
        (\<lambda>inf. case inf of
             None \<Rightarrow> \<lparr>fi_path = [], isDir = False, isShortcut = False, displayName = []\<rparr>
           | Some (name, dir) \<Rightarrow>
               \<lparr>fi_path = ''/home/u/'' @ name, isDir = dir, isShortcut = False,
                displayName = name\<rparr>)\<rparr>"

definition example_typed :: "string \<Rightarrow> (string, string) FileDialog" where
  "example_typed text = example_dialog\<lparr>ui := (ui example_dialog)\<lparr>fileName_text := text\<rparr>\<rparr>"

definition example_job :: "string list \<Rightarrow> (string, string FileInfo) FileInfoJob" where
  "example_job pathList = run example_env \<lparr>paths = pathList, results = [], emitted = []\<rparr>"

text \<open>
  Two sequences of operations on the example dialog. In \<open>example_overlap\<close> the file
  \<open>zz\<close> (which does not exist) is selected and accepted, then a file is activated in
  the view while the first job is still running, which accepts again; then the first
  job finishes. In \<open>example_single\<close> the file \<open>a.txt\<close> is selected and accepted, and the
  job finishes.
\<close>

definition example_file :: "string \<Rightarrow> string FileInfo" where
  "example_file name =
     \<lparr>fi_path = ''/home/u/'' @ name, isDir = False, isShortcut = False, displayName = name\<rparr>"

definition example_overlap :: "(string, string) operation list" where
  "example_overlap =
     [Op_setFileMode ExistingFile,
      Op_onSelectionChanged [example_file ''zz''],
      Op_accept,
      Op_onFileClicked ActivatedClick (Some (example_file ''a.txt'')) None,
      Op_onFileInfoJobFinished False (example_job [''/home/u/zz''])]"

definition example_single :: "(string, string) operation list" where
  "example_single =
     [Op_onSelectionChanged [example_file ''a.txt''],
      Op_accept,
      Op_onFileInfoJobFinished False (example_job [''/home/u/a.txt''])]"

section \<open>Properties of the file-info job\<close>

lemma run_loop_paths: "paths (run_loop env k ps j) = paths j"
  by (induction ps arbitrary: k j) (simp_all add: run_body_def Let_def)

lemma run_loop_results:
  "results (run_loop env k ps j) = results j @ map (info_at env) (live env k ps)"
  by (induction ps arbitrary: k j)
     (simp_all add: run_body_def Let_def live_def info_at_def)

lemma run_loop_emitted:
  "emitted (run_loop env k ps j) = emitted j @ map (signal_at env) (live env k ps)"
  by (induction ps arbitrary: k j)
     (simp_all add: run_body_def Let_def live_def
        info_at_def signal_at_def)

lemma run_loop_all_cancelled:
  "monotone_flag (isCancelled env) \<Longrightarrow> isCancelled env k \<Longrightarrow> run_loop env k ps j = j"
proof (induction ps arbitrary: k)
  case Nil
  show ?case by simp
next
  case (Cons p ps)
  from Cons.prems have "isCancelled env (Suc k)"
    by (simp add: monotone_flag_def)
  with Cons show ?case
    by (simp add: run_body_def)
qed

lemma run_loop_eq_break:
  "monotone_flag (isCancelled env) \<Longrightarrow> run_loop env k ps j = run_break_loop env k ps j"
proof (induction ps arbitrary: k j)
  case Nil
  show ?case by simp
next
  case (Cons p ps)
  show ?case
  proof (cases "isCancelled env k")
    case True
    with Cons.prems have "run_loop env k (p # ps) j = j"
      by (rule run_loop_all_cancelled)
    with True show ?thesis by simp
  next
    case False
    with Cons show ?thesis
      by (simp add: run_body_def Let_def)
  qed
qed

lemma live_all_cancelled:
  "monotone_flag (isCancelled env) \<Longrightarrow> isCancelled env k \<Longrightarrow> live env k ps = []"
proof (induction ps arbitrary: k)
  case Nil
  show ?case by (simp add: live_def)
next
  case (Cons p ps)
  from Cons.prems have "isCancelled env (Suc k)"
    by (simp add: monotone_flag_def)
  with Cons have "live env (Suc k) ps = []" by simp
  with Cons.prems show ?case by (simp add: live_def)
qed

lemma live_takeWhile:
  "monotone_flag (isCancelled env) \<Longrightarrow>
   live env k ps = takeWhile (\<lambda>(i, p). \<not> isCancelled env i) (iterations k ps)"
proof (induction ps arbitrary: k)
  case Nil
  show ?case by (simp add: live_def)
next
  case (Cons p ps)
  show ?case
  proof (cases "isCancelled env k")
    case True
    with Cons.prems have "live env k (p # ps) = []"
      by (rule live_all_cancelled)
    with True show ?thesis by simp
  next
    case False
    from Cons have "live env (Suc k) ps =
        takeWhile (\<lambda>(i, p). \<not> isCancelled env i) (iterations (Suc k) ps)"
      by simp
    with False show ?thesis by (simp add: live_def)
  qed
qed

text \<open>
  C1. \<^verbatim>\<open>FileInfoJob::run\<close> is a single-pass, order-preserving batch. It goes through
  \<open>paths\<close> once, in order. For each path whose iteration the cancellation check lets
  through it queries the file info, appends exactly one file info to \<open>results\<close> and
  emits \<open>GotInfo\<close> once for that path, so \<open>results\<close> lists the infos in the order of
  the paths; after the loop it emits \<open>Finished\<close> once, as the last signal. The list
  of paths itself is unchanged.
\<close>

theorem FileInfoJob_run_single_pass:
  "paths (run env j) = paths j \<and>
   results (run env j) = results j @ map (info_at env) (live env 0 (paths j)) \<and>
   emitted (run env j) = emitted j @ map (signal_at env) (live env 0 (paths j)) @ [Finished] \<and>
   length (filter (\<lambda>s. s = Finished) (map (signal_at env) (live env 0 (paths j)) @ [Finished])) = 1"
proof -
  have "filter (\<lambda>s. s = Finished) (map (signal_at env) xs) = []" for xs
    by (induction xs) (auto simp add: signal_at_def)
  then show ?thesis
    by (simp add: run_def Let_def run_loop_paths run_loop_results run_loop_emitted)
qed

theorem FileInfoJob_run_single_pass_witness:
  "results (run \<lparr>isCancelled = (\<lambda>k. k = 1), g_file_query_info = (\<lambda>k p. Some (k, p)),
                 make_FileInfo = id\<rparr>
              \<lparr>paths = [''/a'', ''/b'', ''/c''], results = [], emitted = []\<rparr>)
     = [Some (0, ''/a''), Some (2, ''/c'')] \<and>
   emitted (run \<lparr>isCancelled = (\<lambda>k. k = 1), g_file_query_info = (\<lambda>k p. Some (k, p)),
                 make_FileInfo = id\<rparr>
              \<lparr>paths = [''/a'', ''/b'', ''/c''], results = [], emitted = []\<rparr>)
     = [GotInfo ''/a'' (Some (0, ''/a'')), GotInfo ''/c'' (Some (2, ''/c'')), Finished]"
  using FileInfoJob_run_single_pass
    [of "\<lparr>isCancelled = (\<lambda>k. k = 1), g_file_query_info = (\<lambda>k p. Some (k, p)),
           make_FileInfo = id\<rparr>"
        "\<lparr>paths = [''/a'', ''/b'', ''/c''], results = [], emitted = []\<rparr>"]
  by (simp add: live_def info_at_def signal_at_def)

text \<open>
  C2. Cancellation is an early exit. When the cancellation flag is monotone, the loop
  of \<^verbatim>\<open>run()\<close>, which skips every iteration that finds the job cancelled, does what
  a loop that breaks at the first such check does: the two jobs end equal. Infos are
  appended and \<open>GotInfo\<close> is emitted exactly for the paths before the first cancelled
  check, none for the cancelled path or a later one, and \<open>Finished\<close> is still emitted
  once, last.
\<close>

theorem FileInfoJob_run_early_exit:
  assumes "monotone_flag (isCancelled env)"
  shows "run env j = run_break env j \<and>
    results (run env j) = results j @
      map (info_at env) (takeWhile (\<lambda>(i, p). \<not> isCancelled env i) (iterations 0 (paths j))) \<and>
    emitted (run env j) = emitted j @
      map (signal_at env) (takeWhile (\<lambda>(i, p). \<not> isCancelled env i) (iterations 0 (paths j)))
      @ [Finished]"
proof (intro conjI)
  show "run env j = run_break env j"
    using assms by (simp add: run_def run_break_def run_loop_eq_break)
next
  show "results (run env j) = results j @
      map (info_at env) (takeWhile (\<lambda>(i, p). \<not> isCancelled env i) (iterations 0 (paths j)))"
    using live_takeWhile [OF assms, of 0 "paths j"]
    by (simp add: run_def Let_def run_loop_results)
next
  show "emitted (run env j) = emitted j @
      map (signal_at env) (takeWhile (\<lambda>(i, p). \<not> isCancelled env i) (iterations 0 (paths j)))
      @ [Finished]"
    using live_takeWhile [OF assms, of 0 "paths j"]
    by (simp add: run_def Let_def run_loop_emitted)
qed

theorem FileInfoJob_run_early_exit_witness:
  "run \<lparr>isCancelled = (\<lambda>k. 1 \<le> k), g_file_query_info = (\<lambda>k p. Some (k, p)),
        make_FileInfo = id\<rparr>
       \<lparr>paths = [''/a'', ''/b'', ''/c''], results = [], emitted = []\<rparr>
   = run_break \<lparr>isCancelled = (\<lambda>k. 1 \<le> k), g_file_query_info = (\<lambda>k p. Some (k, p)),
        make_FileInfo = id\<rparr>
       \<lparr>paths = [''/a'', ''/b'', ''/c''], results = [], emitted = []\<rparr> \<and>
   results (run \<lparr>isCancelled = (\<lambda>k. 1 \<le> k), g_file_query_info = (\<lambda>k p. Some (k, p)),
        make_FileInfo = id\<rparr>
       \<lparr>paths = [''/a'', ''/b'', ''/c''], results = [], emitted = []\<rparr>)
   = [Some (0, ''/a'')] \<and>
   emitted (run \<lparr>isCancelled = (\<lambda>k. 1 \<le> k), g_file_query_info = (\<lambda>k p. Some (k, p)),
        make_FileInfo = id\<rparr>
       \<lparr>paths = [''/a'', ''/b'', ''/c''], results = [], emitted = []\<rparr>)
   = [GotInfo ''/a'' (Some (0, ''/a'')), Finished]"
proof -
  have m: "monotone_flag (isCancelled \<lparr>isCancelled = (\<lambda>k. 1 \<le> k),
      g_file_query_info = (\<lambda>k p. Some (k, p :: string)),
      make_FileInfo = (id :: (nat \<times> string) option \<Rightarrow> (nat \<times> string) option)\<rparr>)"
    by (simp add: monotone_flag_def)
  show ?thesis
    using FileInfoJob_run_early_exit
      [OF m, of "\<lparr>paths = [''/a'', ''/b'', ''/c''], results = [], emitted = []\<rparr>"]
    by (simp add: info_at_def signal_at_def run_break_def Let_def)
qed

section \<open>Properties of the file dialog\<close>

subsection \<open>The file mode\<close>

declare validate_loop.simps [simp del]

declare validate_visits.simps [simp del]

lemma fileMode_emit: "fileMode (emit e d) = fileMode d"
  by (simp add: emit_def)

lemma fileMode_updateSelectionMode: "fileMode (updateSelectionMode d) = fileMode d"
  by (simp add: updateSelectionMode_def)

lemma fileMode_setViewMode: "fileMode (setViewMode tk mode d) = fileMode d"
  by (cases mode)
     (simp_all add: setViewMode_def folderView_setViewMode_def fileMode_updateSelectionMode)

lemma fileMode_onViewModeToggled: "fileMode (onViewModeToggled tk active action d) = fileMode d"
  by (cases action) (simp_all add: onViewModeToggled_def fileMode_setViewMode)

lemma fileMode_setDirectoryPath: "fileMode (setDirectoryPath dir d) = fileMode d"
  by (simp add: setDirectoryPath_def fileMode_emit)

lemma fileMode_onSelectionChanged: "fileMode (onSelectionChanged tk selFiles d) = fileMode d"
  by (simp add: onSelectionChanged_def Let_def)

lemma fileMode_selectFilePath: "fileMode (selectFilePath tk sel d) = fileMode d"
  by (cases sel) (simp_all add: selectFilePath_def fileMode_onSelectionChanged)

lemma fileMode_accept_names: "fileMode (foldl (accept_name tk) d names) = fileMode d"
  by (induction names arbitrary: d) (simp_all add: accept_name_def Let_def)

lemma fileMode_accept_check: "fileMode (accept_check tk d) = fileMode d"
  by (simp add: accept_check_def okButton_setEnabled_def Let_def fileMode_emit)

lemma fileMode_accept: "fileMode (accept tk d) = fileMode d"
  by (simp add: accept_def Let_def fileMode_emit fileMode_accept_check fileMode_accept_names)

lemma fileMode_doAccept: "fileMode (doAccept d) = fileMode d"
  by (simp add: doAccept_def Let_def fileMode_emit)

lemma fileMode_onFileInfoJobFinished:
  "fileMode (onFileInfoJobFinished tk cancelled job d) = fileMode d"
  by (simp add: onFileInfoJobFinished_def okButton_setEnabled_def Let_def reject_def
      fileMode_emit fileMode_doAccept)

lemma fileMode_onFileClicked: "fileMode (onFileClicked tk type f sel d) = fileMode d"
  by (cases f)
     (simp_all add: onFileClicked_def Let_def fileMode_setDirectoryPath fileMode_accept
        fileMode_selectFilePath)

lemma fileMode_selectNameFilter: "fileMode (selectNameFilter flt d) = fileMode d"
  by (simp add: selectNameFilter_def update_def Let_def fileMode_emit)

lemma fileMode_setMimeTypeFilters: "fileMode (setMimeTypeFilters tk fs d) = fileMode d"
  by (simp add: setMimeTypeFilters_def setNameFilters_def)

lemma fileMode_setLabelText: "fileMode (setLabelText label text d) = fileMode d"
  by (cases label) (simp_all add: setLabelText_def)

lemma fileMode_apply_operation:
  "fileMode (apply_operation tk d op) =
     (case op of
        Op_setFileMode mode \<Rightarrow> (if mode = DirectoryOnly then Directory else mode)
      | _ \<Rightarrow> fileMode d)"
  by (cases op)
     (simp_all add: fileMode_accept reject_def fileMode_emit fileMode_setDirectoryPath
        fileMode_selectFilePath onCurrentRowChanged_def Let_def fileMode_onSelectionChanged
        fileMode_onFileClicked fileMode_onViewModeToggled fileMode_onFileInfoJobFinished
        fileMode_selectNameFilter setFilter_def fileMode_setViewMode setFileMode_def
        fileMode_updateSelectionMode setAcceptMode_def setNameFilters_def
        fileMode_setMimeTypeFilters fileMode_setLabelText)

lemma fileMode_new: "fileMode (FileDialog_new tk setupUi dir) = AnyFile"
  by (simp add: FileDialog_new_def Let_def fileMode_setViewMode fileMode_setDirectoryPath
      fileMode_updateSelectionMode folderView_setViewMode_def)

lemma run_operations_fileMode:
  "fileMode d \<noteq> DirectoryOnly \<Longrightarrow> fileMode (run_operations tk d ops) \<noteq> DirectoryOnly"
  unfolding run_operations_def
proof (induction ops arbitrary: d)
  case Nil
  then show ?case by simp
next
  case (Cons op ops)
  have "fileMode (apply_operation tk d op) \<noteq> DirectoryOnly"
    using Cons.prems by (simp add: fileMode_apply_operation split: operation.splits)
  then show ?case
    using Cons.IH by simp
qed

text \<open>
  C10. \<^verbatim>\<open>fileMode_\<close> is never \<open>DirectoryOnly\<close>. The constructor sets it to \<open>AnyFile\<close>,
  \<^verbatim>\<open>setFileMode\<close> stores \<open>Directory\<close> when it is given \<open>DirectoryOnly\<close>, and no other
  operation writes it: after every sequence of operations on a newly constructed
  dialog the file mode differs from \<open>DirectoryOnly\<close>.
\<close>

theorem fileMode_never_DirectoryOnly:
  "fileMode (run_operations tk (FileDialog_new tk setupUi dir) ops) \<noteq> DirectoryOnly"
  by (rule run_operations_fileMode) (simp add: fileMode_new)

subsection \<open>The selection mode\<close>

lemma selection_ok_updateSelectionMode: "selection_ok (updateSelectionMode d)"
  by (simp add: selection_ok_def updateSelectionMode_def)

lemma selection_ok_setViewMode: "selection_ok (setViewMode tk mode d)"
  by (simp add: setViewMode_def Let_def selection_ok_updateSelectionMode)

lemma selection_ok_setFileMode: "selection_ok (setFileMode mode d)"
  by (simp add: setFileMode_def Let_def selection_ok_updateSelectionMode)

lemma ui_setDirectoryPath: "ui (setDirectoryPath dir d) = ui d"
  by (simp add: setDirectoryPath_def emit_def)

lemma selectionMode_setViewMode:
  "selectionMode (ui (setViewMode tk mode d)) =
     (if fileMode d = ExistingFiles then ExtendedSelection else SingleSelection)"
  using selection_ok_setViewMode [of tk mode d]
  by (simp add: selection_ok_def fileMode_setViewMode)

lemma selection_ok_new: "selection_ok (FileDialog_new tk setupUi dir)"
  by (simp add: FileDialog_new_def Let_def selection_ok_def ui_setDirectoryPath
      fileMode_setDirectoryPath selectionMode_setViewMode fileMode_setViewMode
      fileMode_updateSelectionMode folderView_setViewMode_def)

lemma selectionMode_onSelectionChanged:
  "selectionMode (ui (onSelectionChanged tk selFiles d)) = selectionMode (ui d)"
  by (simp add: onSelectionChanged_def Let_def)

lemma selectionMode_selectFilePath:
  "selectionMode (ui (selectFilePath tk sel d)) = selectionMode (ui d)"
  by (cases sel) (simp_all add: selectFilePath_def selectionMode_onSelectionChanged)

lemma ui_emit: "ui (emit e d) = ui d"
  by (simp add: emit_def)

lemma ui_accept_names: "ui (foldl (accept_name tk) d names) = ui d"
  by (induction names arbitrary: d) (simp_all add: accept_name_def Let_def)

lemma selectionMode_accept: "selectionMode (ui (accept tk d)) = selectionMode (ui d)"
  by (simp add: accept_def accept_check_def okButton_setEnabled_def Let_def ui_emit
      ui_accept_names)

lemma ui_doAccept: "ui (doAccept d) = ui d"
  by (simp add: doAccept_def Let_def ui_emit)

lemma selectionMode_onFileInfoJobFinished:
  "selectionMode (ui (onFileInfoJobFinished tk cancelled job d)) = selectionMode (ui d)"
  by (simp add: onFileInfoJobFinished_def okButton_setEnabled_def Let_def reject_def ui_emit
      ui_doAccept)

lemma selectionMode_onFileClicked:
  "selectionMode (ui (onFileClicked tk type f sel d)) = selectionMode (ui d)"
  by (cases f)
     (simp_all add: onFileClicked_def Let_def ui_setDirectoryPath selectionMode_accept
        selectionMode_selectFilePath)

lemma ui_selectNameFilter: "ui (selectNameFilter flt d) = ui d"
  by (simp add: selectNameFilter_def update_def Let_def ui_emit)

lemma ui_setMimeTypeFilters: "ui (setMimeTypeFilters tk fs d) = ui d"
  by (simp add: setMimeTypeFilters_def setNameFilters_def)

lemma selectionMode_setLabelText:
  "selectionMode (ui (setLabelText label text d)) = selectionMode (ui d)"
  by (cases label) (simp_all add: setLabelText_def)

lemma selection_ok_onViewModeToggled:
  "selection_ok d \<Longrightarrow> selection_ok (onViewModeToggled tk active action d)"
  by (cases action) (simp_all add: onViewModeToggled_def selection_ok_setViewMode)

lemma selection_ok_apply_operation:
  "selection_ok d \<Longrightarrow> selection_ok (apply_operation tk d op)"
proof (cases op)
  case (Op_onViewModeToggled active action)
  assume "selection_ok d"
  with Op_onViewModeToggled show ?thesis
    by (simp add: selection_ok_onViewModeToggled)
next
  case (Op_setViewMode mode)
  then show ?thesis by (simp add: selection_ok_setViewMode)
next
  case (Op_setFileMode mode)
  then show ?thesis by (simp add: selection_ok_setFileMode)
qed (simp_all add: selection_ok_def fileMode_accept fileMode_emit fileMode_setDirectoryPath
       fileMode_selectFilePath fileMode_onSelectionChanged fileMode_onFileClicked
       fileMode_onFileInfoJobFinished fileMode_selectNameFilter fileMode_setMimeTypeFilters
       fileMode_setLabelText selectionMode_accept reject_def
       ui_emit ui_setDirectoryPath selectionMode_selectFilePath onCurrentRowChanged_def Let_def
       selectionMode_onSelectionChanged selectionMode_onFileClicked
       selectionMode_onFileInfoJobFinished ui_selectNameFilter setFilter_def setAcceptMode_def
       setNameFilters_def ui_setMimeTypeFilters selectionMode_setLabelText)

lemma selection_ok_run_operations:
  "selection_ok d \<Longrightarrow> selection_ok (run_operations tk d ops)"
  unfolding run_operations_def
  by (induction ops arbitrary: d) (simp_all add: selection_ok_apply_operation)

text \<open>
  C9. The selection mode of the view is determined by the file mode alone. After
  \<^verbatim>\<open>setFileMode\<close>, after \<^verbatim>\<open>setViewMode\<close> and after the constructor it is
  \<open>ExtendedSelection\<close> if the file mode is \<open>ExistingFiles\<close> and \<open>SingleSelection\<close> for
  every other file mode; the same holds after every sequence of operations on a newly
  constructed dialog.
\<close>

theorem selectionMode_follows_fileMode:
  "selectionMode (ui (setFileMode mode d)) =
     (if fileMode (setFileMode mode d) = ExistingFiles then ExtendedSelection
      else SingleSelection) \<and>
   selectionMode (ui (setViewMode tk vm d)) =
     (if fileMode (setViewMode tk vm d) = ExistingFiles then ExtendedSelection
      else SingleSelection) \<and>
   selectionMode (ui (FileDialog_new tk setupUi dir)) =
     (if fileMode (FileDialog_new tk setupUi dir) = ExistingFiles then ExtendedSelection
      else SingleSelection) \<and>
   selectionMode (ui (run_operations tk (FileDialog_new tk setupUi dir) ops)) =
     (if fileMode (run_operations tk (FileDialog_new tk setupUi dir) ops) = ExistingFiles
      then ExtendedSelection else SingleSelection)"
  using selection_ok_setFileMode [of mode d] selection_ok_setViewMode [of tk vm d]
    selection_ok_new [of tk setupUi dir]
    selection_ok_run_operations [OF selection_ok_new, of tk tk setupUi dir ops]
  unfolding selection_ok_def by blast

subsection \<open>Labels\<close>

lemma labelText_setLabelText_label:
  "label = LookIn \<or> label = FileName \<or> label = FileType \<Longrightarrow>
   labelText label (setLabelText label text d) = text"
  by (auto simp add: labelText_def setLabelText_def)

lemma labelText_button: "labelText Accept d = [] \<and> labelText Reject d = []"
  by (simp add: labelText_def)

text \<open>
  C6. The label texts do not all round-trip. \<^verbatim>\<open>setLabelText\<close> stores the text of every
  label, and \<^verbatim>\<open>labelText\<close> returns it for \<open>LookIn\<close>, \<open>FileName\<close> and \<open>FileType\<close>
  (lemma \<open>labelText_setLabelText_label\<close>). For \<open>Accept\<close> and \<open>Reject\<close> it returns the
  empty string in every state (lemma \<open>labelText_button\<close>): after
  \<^verbatim>\<open>setLabelText(Accept, "Open")\<close> the Ok button shows \<open>Open\<close> and \<^verbatim>\<open>labelText(Accept)\<close>
  is empty.
\<close>

theorem labelText_Accept_Reject_lost:
  "labelText Accept (setLabelText Accept ''Open'' example_dialog) = [] \<and>
   labelText Reject (setLabelText Reject ''Close'' example_dialog) = [] \<and>
   okButton_text (ui (setLabelText Accept ''Open'' example_dialog)) = ''Open''"
  by (simp add: labelText_def setLabelText_def)

subsection \<open>The row filter\<close>

lemma name_matched_iff:
  "name_matched tk pats name = (\<exists>pattern\<in>set pats. exactMatch tk pattern name)"
  by (induction pats) simp_all

text \<open>
  C8, as the code has it. In the directory mode a row is accepted iff its file info is a
  directory and its display name matches one of the patterns of the filter. In every
  other mode a directory is accepted whatever its name, and another row iff its
  display name matches one of the patterns.
\<close>

theorem filterAcceptsRow_by_mode:
  "filterAcceptsRow tk d info =
     (if fileMode d = Directory
      then isDir info \<and> (\<exists>pattern\<in>set (patterns d). exactMatch tk pattern (displayName info))
      else isDir info \<or> (\<exists>pattern\<in>set (patterns d). exactMatch tk pattern (displayName info)))"
  by (simp add: filterAcceptsRow_def name_matched_iff)

lemma exactMatch_example: "exactMatch example_toolkit = wildcard_match"
  by (simp add: example_toolkit_def)

lemma fileMode_setFileMode:
  "fileMode (setFileMode mode d) = (if mode = DirectoryOnly then Directory else mode)"
  by (simp add: setFileMode_def Let_def fileMode_updateSelectionMode)

lemma example_patterns:
  "patterns (selectNameFilter ''Text files (*.txt)'' (setFileMode Directory example_dialog))
     = [''*.txt'']"
  by (simp add: selectNameFilter_def update_def Let_def emit_def setFileMode_def
      updateSelectionMode_def example_dialog_def FileDialog_new_def setViewMode_def
      folderView_setViewMode_def setDirectoryPath_def example_toolkit_def example_ui_def
      indexOf_def indexOf_from_def mid_def simplified_def isSpace_def)

text \<open>
  C8 as stated fails: in the directory mode with the name filter \<open>Text files (*.txt)\<close>,
  the directory \<open>docs\<close> is not accepted.
\<close>

theorem filterAcceptsRow_directory_counterexample:
  "fileMode (selectNameFilter ''Text files (*.txt)'' (setFileMode Directory example_dialog))
     = Directory \<and>
   \<not> (filterAcceptsRow example_toolkit
         (selectNameFilter ''Text files (*.txt)'' (setFileMode Directory example_dialog))
         \<lparr>fi_path = ''/home/u/docs'', isDir = True, isShortcut = False, displayName = ''docs''\<rparr>
       = isDir \<lparr>fi_path = ''/home/u/docs'', isDir = True, isShortcut = False,
                displayName = ''docs''\<rparr>)"
  by (simp add: filterAcceptsRow_def example_patterns fileMode_selectNameFilter
      fileMode_setFileMode exactMatch_example to_lower_def)

theorem filterAcceptsRow_by_mode_witness:
  "filterAcceptsRow example_toolkit
     (selectNameFilter ''Text files (*.txt)'' (setFileMode Directory example_dialog))
     \<lparr>fi_path = ''/home/u/old.TXT'', isDir = True, isShortcut = False,
      displayName = ''old.TXT''\<rparr> \<and>
   \<not> filterAcceptsRow example_toolkit
     (selectNameFilter ''Text files (*.txt)'' (setFileMode Directory example_dialog))
     \<lparr>fi_path = ''/home/u/a.txt'', isDir = False, isShortcut = False,
      displayName = ''a.txt''\<rparr>"
  using filterAcceptsRow_by_mode [of example_toolkit
      "selectNameFilter ''Text files (*.txt)'' (setFileMode Directory example_dialog)"
      "\<lparr>fi_path = ''/home/u/old.TXT'', isDir = True, isShortcut = False,
        displayName = ''old.TXT''\<rparr>"]
    filterAcceptsRow_by_mode [of example_toolkit
      "selectNameFilter ''Text files (*.txt)'' (setFileMode Directory example_dialog)"
      "\<lparr>fi_path = ''/home/u/a.txt'', isDir = False, isShortcut = False,
        displayName = ''a.txt''\<rparr>"]
  by (simp add: example_patterns fileMode_selectNameFilter fileMode_setFileMode
      exactMatch_example to_lower_def)

subsection \<open>The validation loop\<close>

lemma validate_loop_skip:
  "mode = AnyFile \<Longrightarrow> i < length ps \<Longrightarrow> length files \<le> i \<or> fi_path (files ! i) \<noteq> ps ! i \<Longrightarrow>
   validate_loop tk mode ps files i = validate_loop tk mode ps files (i + 2)"
  by (subst validate_loop.simps) (simp add: Let_def)

lemma validate_loop_update_before:
  "j < k \<Longrightarrow>
   validate_loop tk mode (ps[j := p]) (files[j := f]) k = validate_loop tk mode ps files k"
proof (induction tk mode ps files k rule: validate_loop.induct)
  case (1 tk mode ps files i)
  from "1.prems" have ne: "i \<noteq> j" "j < i + 1" "j < i + 1 + 1" by simp_all
  show ?case
    using 1 ne
    by (auto simp add: validate_loop.simps [of tk mode "ps[j := p]" "files[j := f]" i]
        validate_loop.simps [of tk mode ps files i] Let_def)
qed

lemma loop_step_greater: "loop_step mode ps files i = Some k \<Longrightarrow> i < k"
  by (auto simp add: loop_step_def split: if_splits)

lemma loop_step_update:
  "i \<noteq> k \<Longrightarrow> loop_step mode (ps[k := p]) (files[k := f]) i = loop_step mode ps files i"
  by (simp add: loop_step_def)

lemma validate_visits_step:
  "i < length ps \<Longrightarrow>
   validate_visits tk mode ps files i =
     i # (case loop_step mode ps files i of
            None \<Rightarrow> []
          | Some k \<Rightarrow> validate_visits tk mode ps files k)"
  by (subst validate_visits.simps) (simp add: loop_step_def Let_def)

lemma validate_visits_end: "\<not> i < length ps \<Longrightarrow> validate_visits tk mode ps files i = []"
  by (subst validate_visits.simps) simp

lemma validate_loop_step:
  "i < length ps \<Longrightarrow> loop_step mode ps files i = Some k \<Longrightarrow>
   validate_loop tk mode ps files i = validate_loop tk mode ps files k"
  by (subst validate_loop.simps) (auto simp add: loop_step_def Let_def split: if_splits)

lemma validate_visits_bounds:
  "k \<in> set (validate_visits tk mode ps files i) \<Longrightarrow> i \<le> k \<and> k < length ps"
proof (induction "length ps - i" arbitrary: i rule: less_induct)
  case less
  show ?case
  proof (cases "i < length ps")
    case False
    with less.prems show ?thesis by (simp add: validate_visits_end)
  next
    case True
    show ?thesis
    proof (cases "k = i")
      case True
      with \<open>i < length ps\<close> show ?thesis by simp
    next
      case False
      with less.prems True obtain j where j: "loop_step mode ps files i = Some j"
        and k: "k \<in> set (validate_visits tk mode ps files j)"
        by (cases "loop_step mode ps files i") (auto simp add: validate_visits_step)
      from j have "i < j" by (rule loop_step_greater)
      with True have "length ps - j < length ps - i" by simp
      from less.hyps [OF this k] \<open>i < j\<close> show ?thesis by simp
    qed
  qed
qed

lemma validate_from_visited:
  assumes "i \<in> set (validate_visits tk mode ps files j)" and "mode = AnyFile"
    and "length files \<le> i \<or> fi_path (files ! i) \<noteq> ps ! i"
  shows "i + 1 \<notin> set (validate_visits tk mode ps files j) \<and>
    validate_loop tk mode (ps[i + 1 := p]) (files[i + 1 := f]) j
      = validate_loop tk mode ps files j"
  using assms(1)
proof (induction "i - j" arbitrary: j rule: less_induct)
  case less
  from less.prems have ji: "j \<le> i" and il: "i < length ps"
    using validate_visits_bounds by blast+
  show ?case
  proof (cases "j = i")
    case True
    have s: "loop_step mode ps files i = Some (i + 1 + 1)"
      using assms by (simp add: loop_step_def)
    have "validate_visits tk mode ps files i = i # validate_visits tk mode ps files (i + 1 + 1)"
      using il s by (simp add: validate_visits_step)
    moreover have "i + 1 \<notin> set (validate_visits tk mode ps files (i + 1 + 1))"
      using validate_visits_bounds [of "i + 1" tk mode ps files "i + 1 + 1"] by auto
    moreover have "validate_loop tk mode (ps[i + 1 := p]) (files[i + 1 := f]) i
        = validate_loop tk mode (ps[i + 1 := p]) (files[i + 1 := f]) (i + 1 + 1)"
      using il s by (intro validate_loop_step) (simp_all add: loop_step_update)
    moreover have "validate_loop tk mode (ps[i + 1 := p]) (files[i + 1 := f]) (i + 1 + 1)
        = validate_loop tk mode ps files (i + 1 + 1)"
      by (rule validate_loop_update_before) simp
    moreover have "validate_loop tk mode ps files i = validate_loop tk mode ps files (i + 1 + 1)"
      using il s by (rule validate_loop_step)
    ultimately show ?thesis using True by simp
  next
    case False
    with ji have lt: "j < i" by simp
    with il have jl: "j < length ps" by simp
    from less.prems False jl obtain k where k: "loop_step mode ps files j = Some k"
      and ik: "i \<in> set (validate_visits tk mode ps files k)"
      by (cases "loop_step mode ps files j") (auto simp add: validate_visits_step)
    from k have jk: "j < k" by (rule loop_step_greater)
    from ik have "k \<le> i" using validate_visits_bounds by blast
    with jk have "i - k < i - j" by simp
    from less.hyps [OF this ik]
    have ih: "i + 1 \<notin> set (validate_visits tk mode ps files k) \<and>
        validate_loop tk mode (ps[i + 1 := p]) (files[i + 1 := f]) k
          = validate_loop tk mode ps files k" .
    have "validate_visits tk mode ps files j = j # validate_visits tk mode ps files k"
      using jl k by (simp add: validate_visits_step)
    moreover have "validate_loop tk mode (ps[i + 1 := p]) (files[i + 1 := f]) j
        = validate_loop tk mode (ps[i + 1 := p]) (files[i + 1 := f]) k"
      using jl k lt by (intro validate_loop_step) (simp_all add: loop_step_update)
    moreover have "validate_loop tk mode ps files j = validate_loop tk mode ps files k"
      using jl k by (rule validate_loop_step)
    ultimately show ?thesis using ih lt by simp
  qed
qed

text \<open>
  C7. When the validation loop of \<^verbatim>\<open>onFileInfoJobFinished\<close>, started at index 0, comes
  to an index \<open>i\<close> whose path has no matching file info, and the file mode is
  \<open>AnyFile\<close>, the index is incremented twice: the loop goes on at \<open>i + 2\<close>, its body
  never runs at \<open>i + 1\<close>, and the outcome of the loop is the same whatever path and
  file info stand at \<open>i + 1\<close>.
\<close>

theorem validate_loop_skips_next_path:
  assumes "mode = AnyFile" and "i \<in> set (validate_visits tk mode ps files 0)"
    and "length files \<le> i \<or> fi_path (files ! i) \<noteq> ps ! i"
  shows "validate_loop tk mode ps files i = validate_loop tk mode ps files (i + 1 + 1) \<and>
    i + 1 \<notin> set (validate_visits tk mode ps files 0) \<and>
    validate_loop tk mode (ps[i + 1 := p]) (files[i + 1 := f]) 0
      = validate_loop tk mode ps files 0"
proof -
  from assms(2) have "i < length ps"
    using validate_visits_bounds by blast
  with assms have "validate_loop tk mode ps files i = validate_loop tk mode ps files (i + 2)"
    by (intro validate_loop_skip)
  with validate_from_visited [OF assms(2) assms(1) assms(3), of p f] show ?thesis
    by simp
qed

theorem validate_loop_skips_next_path_witness:
  "validate_loop example_toolkit AnyFile [''/home/u/new.txt'', ''/home/u/docs'']
     [\<lparr>fi_path = [], isDir = False, isShortcut = False, displayName = []\<rparr>,
      \<lparr>fi_path = ''/home/u/docs'', isDir = True, isShortcut = False, displayName = ''docs''\<rparr>] 0
   = validate_loop example_toolkit AnyFile [''/home/u/new.txt'', ''/home/u/docs'']
     [\<lparr>fi_path = [], isDir = False, isShortcut = False, displayName = []\<rparr>,
      \<lparr>fi_path = ''/home/u/docs'', isDir = True, isShortcut = False, displayName = ''docs''\<rparr>] 2 \<and>
   1 \<notin> set (validate_visits example_toolkit AnyFile [''/home/u/new.txt'', ''/home/u/docs'']
     [\<lparr>fi_path = [], isDir = False, isShortcut = False, displayName = []\<rparr>,
      \<lparr>fi_path = ''/home/u/docs'', isDir = True, isShortcut = False, displayName = ''docs''\<rparr>] 0) \<and>
   validate_loop example_toolkit AnyFile [''/home/u/new.txt'', ''/home/u/a.txt'']
     [\<lparr>fi_path = [], isDir = False, isShortcut = False, displayName = []\<rparr>,
      \<lparr>fi_path = ''/home/u/a.txt'', isDir = False, isShortcut = False,
       displayName = ''a.txt''\<rparr>] 0
   = validate_loop example_toolkit AnyFile [''/home/u/new.txt'', ''/home/u/docs'']
     [\<lparr>fi_path = [], isDir = False, isShortcut = False, displayName = []\<rparr>,
      \<lparr>fi_path = ''/home/u/docs'', isDir = True, isShortcut = False, displayName = ''docs''\<rparr>] 0"
proof -
  have v: "0 \<in> set (validate_visits example_toolkit AnyFile
      [''/home/u/new.txt'', ''/home/u/docs'']
      [\<lparr>fi_path = [], isDir = False, isShortcut = False, displayName = []\<rparr>,
       \<lparr>fi_path = ''/home/u/docs'', isDir = True, isShortcut = False,
        displayName = ''docs''\<rparr>] 0)"
    by (simp add: validate_visits.simps)
  show ?thesis
    using validate_loop_skips_next_path [OF refl v, of "''/home/u/a.txt''"
        "\<lparr>fi_path = ''/home/u/a.txt'', isDir = False, isShortcut = False,
          displayName = ''a.txt''\<rparr>"]
    by (simp add: numeral_2_eq_2)
qed

subsection \<open>The examples\<close>

lemma example_dialog_value:
  "example_dialog =
     \<lparr>ui = \<lparr>fileName_text = [], lookInLabel_text = ''Look in:'',
            fileNameLabel_text = ''File name:'', fileTypeLabel_text = ''Files of type:'',
            okButton_text = ''OK'', cancelButton_text = ''Cancel'', okButton_enabled = True,
            folderView_viewMode = DetailedListMode, selectionMode = SingleSelection,
            checkedAction = Some DetailedViewAction\<rparr>,
      viewMode = DetailedListMode, fileMode = AnyFile, acceptMode = AcceptOpen, filters = 0,
      directoryPath = ''/home/u'', selectedFiles = [], defaultSuffix = [], nameFilters = [],
      mimeTypeFilters = [], currentNameFilter = [], patterns = [],
      effects = [DirectoryEntered]\<rparr>"
  by (simp add: example_dialog_def FileDialog_new_def Let_def setViewMode_def
      folderView_setViewMode_def updateSelectionMode_def setDirectoryPath_def emit_def
      example_toolkit_def example_ui_def)

lemma example_accept:
  "accept example_toolkit
     (example_typed ([dquote] @ ''new.txt'' @ [dquote] @ '' '' @ [dquote] @ ''docs'' @ [dquote]))
   = (example_typed ([dquote] @ ''new.txt'' @ [dquote] @ '' '' @ [dquote] @ ''docs'' @ [dquote]))
       \<lparr>ui := (ui (example_typed
            ([dquote] @ ''new.txt'' @ [dquote] @ '' '' @ [dquote] @ ''docs'' @ [dquote])))
          \<lparr>okButton_enabled := False\<rparr>,
        selectedFiles := [''file:///home/u/new.txt'', ''file:///home/u/docs''],
        effects := [DirectoryEntered, OkButton_setEnabled False,
                    RunAsync [''/home/u/new.txt'', ''/home/u/docs'']]\<rparr>"
  apply (simp only: accept_def Let_def example_typed_def)
  apply (simp add: example_dialog_value accept_check_def okButton_setEnabled_def accept_name_def
      emit_def example_toolkit_def dquote_def parseNames_def indexOf_def lastIndexOf_def
      mid_def match_sep_def isSpace_def)
  done

lemma example_job_value:
  "example_job [''/home/u/new.txt'', ''/home/u/docs''] =
     \<lparr>paths = [''/home/u/new.txt'', ''/home/u/docs''],
      results = [\<lparr>fi_path = [], isDir = False, isShortcut = False, displayName = []\<rparr>,
                 \<lparr>fi_path = ''/home/u/docs'', isDir = True, isShortcut = False,
                  displayName = ''docs''\<rparr>],
      emitted = [GotInfo ''/home/u/new.txt''
                   \<lparr>fi_path = [], isDir = False, isShortcut = False, displayName = []\<rparr>,
                 GotInfo ''/home/u/docs''
                   \<lparr>fi_path = ''/home/u/docs'', isDir = True, isShortcut = False,
                    displayName = ''docs''\<rparr>,
                 Finished]\<rparr>"
  by (simp add: example_job_def run_def run_body_def Let_def example_env_def)

lemma example_validate:
  "validate_loop example_toolkit AnyFile [''/home/u/new.txt'', ''/home/u/docs'']
     [\<lparr>fi_path = [], isDir = False, isShortcut = False, displayName = []\<rparr>,
      \<lparr>fi_path = ''/home/u/docs'', isDir = True, isShortcut = False, displayName = ''docs''\<rparr>] 0
   = []"
  by (simp add: validate_loop.simps)

text \<open>
  C3 at a failing input. In the mode \<open>AnyFile\<close> the user enters the two names
  \<open>new.txt\<close>, which does not exist, and \<open>docs\<close>, which is a directory. The job
  returns no matching info for the first path and the info of the directory for the
  second. The validation loop skips the second path, and the dialog is accepted with
  both files selected, although the second one is a directory.
\<close>

theorem accept_flow_accepts_directory:
  "effects (onFileInfoJobFinished example_toolkit False
      (example_job [''/home/u/new.txt'', ''/home/u/docs''])
      (accept example_toolkit (example_typed
         ([dquote] @ ''new.txt'' @ [dquote] @ '' '' @ [dquote] @ ''docs'' @ [dquote]))))
   = [DirectoryEntered, OkButton_setEnabled False,
      RunAsync [''/home/u/new.txt'', ''/home/u/docs''],
      FilesSelected [''file:///home/u/new.txt'', ''file:///home/u/docs''], QDialog_accept,
      OkButton_setEnabled True] \<and>
   fi_path (results (example_job [''/home/u/new.txt'', ''/home/u/docs'']) ! 1)
     = paths (example_job [''/home/u/new.txt'', ''/home/u/docs'']) ! 1 \<and>
   isDir (results (example_job [''/home/u/new.txt'', ''/home/u/docs'']) ! 1)"
  unfolding example_accept example_job_value
  by (simp add: onFileInfoJobFinished_def okButton_setEnabled_def Let_def example_typed_def
      example_dialog_value example_validate doAccept_def emit_def)

subsection \<open>Accepting\<close>

lemma effects_accept_names: "effects (foldl (accept_name tk) d names) = effects d"
  by (induction names arbitrary: d) (simp_all add: accept_name_def Let_def)

lemma accept_no_name:
  "fileName_text (ui d) = [] \<Longrightarrow> fileMode d \<noteq> Directory \<Longrightarrow>
   accept tk d = emit (MessageBox_critical ''Error'' ''Please select a file'')
                   (d\<lparr>selectedFiles := []\<rparr>)"
  by (simp add: accept_def Let_def)

lemma accept_starts_job:
  "fileName_text (ui d) \<noteq> [] \<or> fileMode d = Directory \<Longrightarrow>
   okButton_enabled (ui (accept tk d)) = False \<and>
   effects (accept tk d) = effects d @
     [OkButton_setEnabled False, RunAsync (pathListFromQUrls tk (selectedFiles (accept tk d)))]"
  by (auto simp add: accept_def accept_check_def okButton_setEnabled_def Let_def emit_def
      effects_accept_names)

lemma okButton_onFileInfoJobFinished:
  "okButton_enabled (ui (onFileInfoJobFinished tk cancelled job d)) = True"
  by (simp add: onFileInfoJobFinished_def okButton_setEnabled_def Let_def ui_emit)

lemma onFileInfoJobFinished_cancelled:
  "selectedFiles (onFileInfoJobFinished tk True job d) = [] \<and>
   effects (onFileInfoJobFinished tk True job d)
     = effects d @ [QDialog_reject, OkButton_setEnabled True]"
  by (simp add: onFileInfoJobFinished_def okButton_setEnabled_def reject_def emit_def)

lemma onFileInfoJobFinished_error:
  "validate_loop tk (fileMode d) (paths job) (results job) 0 \<noteq> [] \<Longrightarrow>
   selectedFiles (onFileInfoJobFinished tk False job d) = [] \<and>
   effects (onFileInfoJobFinished tk False job d) = effects d @
     [MessageBox_critical ''Error'' (validate_loop tk (fileMode d) (paths job) (results job) 0),
      OkButton_setEnabled True]"
  by (simp add: onFileInfoJobFinished_def okButton_setEnabled_def Let_def emit_def)

lemma onFileInfoJobFinished_ok:
  "validate_loop tk (fileMode d) (paths job) (results job) 0 = [] \<Longrightarrow>
   onFileInfoJobFinished tk False job d = okButton_setEnabled True (doAccept d)"
  by (simp add: onFileInfoJobFinished_def Let_def)

text \<open>
  C4. A failed attempt to accept leaves no selected files: when \<^verbatim>\<open>accept()\<close> finds the
  file name empty outside the directory mode, when the job was cancelled (then the
  dialog is rejected as well), and when the validation reports an error (then the
  message box shows that error).
\<close>

theorem failed_accept_clears_selectedFiles:
  "(fileName_text (ui d) = [] \<and> fileMode d \<noteq> Directory \<longrightarrow>
      selectedFiles (accept tk d) = []) \<and>
   (cancelled \<longrightarrow>
      selectedFiles (onFileInfoJobFinished tk cancelled job d) = [] \<and>
      effects (onFileInfoJobFinished tk cancelled job d)
        = effects d @ [QDialog_reject, OkButton_setEnabled True]) \<and>
   (\<not> cancelled \<and> validate_loop tk (fileMode d) (paths job) (results job) 0 \<noteq> [] \<longrightarrow>
      selectedFiles (onFileInfoJobFinished tk cancelled job d) = [] \<and>
      effects (onFileInfoJobFinished tk cancelled job d) = effects d @
        [MessageBox_critical ''Error''
           (validate_loop tk (fileMode d) (paths job) (results job) 0),
         OkButton_setEnabled True])"
proof (intro conjI impI)
  assume "fileName_text (ui d) = [] \<and> fileMode d \<noteq> Directory"
  then show "selectedFiles (accept tk d) = []"
    by (simp add: accept_no_name emit_def)
next
  assume cancelled
  then show "selectedFiles (onFileInfoJobFinished tk cancelled job d) = []"
    by (simp add: onFileInfoJobFinished_cancelled)
next
  assume cancelled
  then show "effects (onFileInfoJobFinished tk cancelled job d)
      = effects d @ [QDialog_reject, OkButton_setEnabled True]"
    by (simp add: onFileInfoJobFinished_cancelled)
next
  assume "\<not> cancelled \<and> validate_loop tk (fileMode d) (paths job) (results job) 0 \<noteq> []"
  then show "selectedFiles (onFileInfoJobFinished tk cancelled job d) = []"
    by (simp add: onFileInfoJobFinished_error)
next
  assume "\<not> cancelled \<and> validate_loop tk (fileMode d) (paths job) (results job) 0 \<noteq> []"
  then show "effects (onFileInfoJobFinished tk cancelled job d) = effects d @
        [MessageBox_critical ''Error''
           (validate_loop tk (fileMode d) (paths job) (results job) 0),
         OkButton_setEnabled True]"
    by (simp add: onFileInfoJobFinished_error)
qed

lemma example_validate_missing:
  "validate_loop example_toolkit ExistingFile [''/home/u/new.txt'']
     [\<lparr>fi_path = [], isDir = False, isShortcut = False, displayName = []\<rparr>] 0
   = ''Path '' @ [dquote] @ ''/home/u/new.txt'' @ [dquote] @ '' does not exist''"
  by (simp add: validate_loop.simps example_toolkit_def)

lemma example_job_missing:
  "example_job [''/home/u/new.txt''] =
     \<lparr>paths = [''/home/u/new.txt''],
      results = [\<lparr>fi_path = [], isDir = False, isShortcut = False, displayName = []\<rparr>],
      emitted = [GotInfo ''/home/u/new.txt''
                   \<lparr>fi_path = [], isDir = False, isShortcut = False, displayName = []\<rparr>,
                 Finished]\<rparr>"
  by (simp add: example_job_def run_def run_body_def Let_def example_env_def)

theorem failed_accept_clears_selectedFiles_witness:
  "selectedFiles (accept example_toolkit
      (example_dialog\<lparr>selectedFiles := [''file:///home/u/old.txt'']\<rparr>)) = [] \<and>
   selectedFiles (onFileInfoJobFinished example_toolkit True (example_job [''/home/u/new.txt''])
      (example_dialog\<lparr>selectedFiles := [''file:///home/u/new.txt'']\<rparr>)) = [] \<and>
   effects (onFileInfoJobFinished example_toolkit True (example_job [''/home/u/new.txt''])
      (example_dialog\<lparr>selectedFiles := [''file:///home/u/new.txt'']\<rparr>))
     = [DirectoryEntered, QDialog_reject, OkButton_setEnabled True] \<and>
   selectedFiles (onFileInfoJobFinished example_toolkit False (example_job [''/home/u/new.txt''])
      (example_dialog\<lparr>fileMode := ExistingFile,
         selectedFiles := [''file:///home/u/new.txt'']\<rparr>)) = [] \<and>
   effects (onFileInfoJobFinished example_toolkit False (example_job [''/home/u/new.txt''])
      (example_dialog\<lparr>fileMode := ExistingFile,
         selectedFiles := [''file:///home/u/new.txt'']\<rparr>))
     = [DirectoryEntered,
        MessageBox_critical ''Error''
          (''Path '' @ [dquote] @ ''/home/u/new.txt'' @ [dquote] @ '' does not exist''),
        OkButton_setEnabled True]"
proof -
  have h1: "fileName_text (ui (example_dialog\<lparr>selectedFiles := [''file:///home/u/old.txt'']\<rparr>))
      = [] \<and> fileMode (example_dialog\<lparr>selectedFiles := [''file:///home/u/old.txt'']\<rparr>)
      \<noteq> Directory"
    by (simp add: example_dialog_value)
  have h3: "\<not> False \<and> validate_loop example_toolkit
      (fileMode (example_dialog\<lparr>fileMode := ExistingFile,
         selectedFiles := [''file:///home/u/new.txt'']\<rparr>))
      (paths (example_job [''/home/u/new.txt''])) (results (example_job [''/home/u/new.txt''])) 0
      \<noteq> []"
    by (simp add: example_job_missing example_validate_missing)
  have e: "effects example_dialog = [DirectoryEntered]"
    by (simp add: example_dialog_value)
  show ?thesis
    using h1 h3 e
      failed_accept_clears_selectedFiles [of
        "example_dialog\<lparr>selectedFiles := [''file:///home/u/old.txt'']\<rparr>" example_toolkit]
      failed_accept_clears_selectedFiles [of
        "example_dialog\<lparr>selectedFiles := [''file:///home/u/new.txt'']\<rparr>" example_toolkit
        True "example_job [''/home/u/new.txt'']"]
      failed_accept_clears_selectedFiles [of
        "example_dialog\<lparr>fileMode := ExistingFile,
           selectedFiles := [''file:///home/u/new.txt'']\<rparr>" example_toolkit
        False "example_job [''/home/u/new.txt'']"]
    by (simp add: example_job_missing example_validate_missing)
qed

lemma okButton_setViewMode:
  "okButton_enabled (ui (setViewMode tk mode d)) = okButton_enabled (ui d)"
  by (cases mode)
     (simp_all add: setViewMode_def folderView_setViewMode_def updateSelectionMode_def)

lemma okButton_onViewModeToggled:
  "okButton_enabled (ui (onViewModeToggled tk active action d)) = okButton_enabled (ui d)"
  by (cases action) (simp_all add: onViewModeToggled_def okButton_setViewMode)

lemma okButton_setLabelText:
  "okButton_enabled (ui (setLabelText label text d)) = okButton_enabled (ui d)"
  by (cases label) (simp_all add: setLabelText_def)

lemma okButton_selectFilePath:
  "okButton_enabled (ui (selectFilePath tk sel d)) = okButton_enabled (ui d)"
  by (cases sel) (simp_all add: selectFilePath_def onSelectionChanged_def Let_def)

lemma okButton_other_operations:
  "(case op of
      Op_accept \<Rightarrow> True
    | Op_onFileClicked type f sel \<Rightarrow> True
    | Op_onFileInfoJobFinished cancelled job \<Rightarrow> True
    | _ \<Rightarrow> okButton_enabled (ui (apply_operation tk d op)) = okButton_enabled (ui d))"
  by (cases op)
     (simp_all add: reject_def ui_emit ui_setDirectoryPath okButton_selectFilePath
        onCurrentRowChanged_def Let_def onSelectionChanged_def okButton_onViewModeToggled
        ui_selectNameFilter setFilter_def okButton_setViewMode setFileMode_def
        updateSelectionMode_def setAcceptMode_def setNameFilters_def ui_setMimeTypeFilters
        okButton_setLabelText)

lemma jobs_started_emit:
  "jobs_started (emit e d) = jobs_started d + (if is_RunAsync e then 1 else 0)"
  by (simp add: jobs_started_def emit_def)

lemma jobs_started_effects: "effects d' = effects d \<Longrightarrow> jobs_started d' = jobs_started d"
  by (simp add: jobs_started_def)

lemma effects_setViewMode: "effects (setViewMode tk mode d) = effects d"
  by (cases mode)
     (simp_all add: setViewMode_def folderView_setViewMode_def updateSelectionMode_def)

lemma effects_onViewModeToggled: "effects (onViewModeToggled tk active action d) = effects d"
  by (cases action) (simp_all add: onViewModeToggled_def effects_setViewMode)

lemma effects_setLabelText: "effects (setLabelText label text d) = effects d"
  by (cases label) (simp_all add: setLabelText_def)

lemma effects_selectFilePath: "effects (selectFilePath tk sel d) = effects d"
  by (cases sel) (simp_all add: selectFilePath_def onSelectionChanged_def Let_def)

lemma jobs_started_selectNameFilter: "jobs_started (selectNameFilter flt d) = jobs_started d"
  by (simp add: selectNameFilter_def update_def Let_def jobs_started_def emit_def)

lemma jobs_started_setDirectoryPath: "jobs_started (setDirectoryPath dir d) = jobs_started d"
  by (simp add: setDirectoryPath_def jobs_started_def emit_def)

lemma jobs_started_doAccept: "jobs_started (doAccept d) = jobs_started d"
  by (simp add: doAccept_def Let_def jobs_started_def emit_def)

lemma jobs_started_onFileInfoJobFinished:
  "jobs_started (onFileInfoJobFinished tk cancelled job d) = jobs_started d"
  using jobs_started_doAccept [of d]
  by (simp add: onFileInfoJobFinished_def okButton_setEnabled_def Let_def reject_def
      jobs_started_def emit_def)

lemma jobs_started_accept_names:
  "jobs_started (foldl (accept_name tk) d names) = jobs_started d"
  by (rule jobs_started_effects) (rule effects_accept_names)

lemma accept_job:
  "fileName_text (ui d) \<noteq> [] \<or> fileMode d = Directory \<Longrightarrow>
   jobs_started (accept tk d) = jobs_started d + 1 \<and> \<not> okButton_enabled (ui (accept tk d))"
  using accept_starts_job [of d tk] by (simp add: jobs_started_def)

lemma accept_no_job:
  "fileName_text (ui d) = [] \<Longrightarrow> fileMode d \<noteq> Directory \<Longrightarrow>
   jobs_started (accept tk d) = jobs_started d \<and>
   okButton_enabled (ui (accept tk d)) = okButton_enabled (ui d)"
  by (simp add: accept_no_name emit_def jobs_started_def)

lemma accept_button:
  "(jobs_started (accept tk d) = jobs_started d \<and>
      okButton_enabled (ui (accept tk d)) = okButton_enabled (ui d)) \<or>
   (jobs_started (accept tk d) = jobs_started d + 1 \<and> \<not> okButton_enabled (ui (accept tk d)))"
  using accept_job [of d tk] accept_no_job [of d tk] by blast

lemma effects_setDirectoryPath: "effects (setDirectoryPath dir d) = effects d @ [DirectoryEntered]"
  by (simp add: setDirectoryPath_def emit_def)

lemma effects_selectNameFilter:
  "effects (selectNameFilter flt d) =
     effects d @ (if flt \<noteq> currentNameFilter d then [FilterSelected flt] else [])"
  by (simp add: selectNameFilter_def update_def Let_def emit_def)

lemma onFileClicked_button:
  "(jobs_started (onFileClicked tk type f sel d) = jobs_started d \<and>
      okButton_enabled (ui (onFileClicked tk type f sel d)) = okButton_enabled (ui d)) \<or>
   (jobs_started (onFileClicked tk type f sel d) = jobs_started d + 1 \<and>
      \<not> okButton_enabled (ui (onFileClicked tk type f sel d)))"
proof (cases f)
  case None
  then show ?thesis by (simp add: onFileClicked_def)
next
  case (Some fi)
  show ?thesis
  proof (cases "type = ActivatedClick \<and> \<not> isDir fi \<and> fileMode d \<noteq> Directory")
    case True
    have "jobs_started (selectFilePath tk sel d) = jobs_started d"
      by (rule jobs_started_effects) (rule effects_selectFilePath)
    with True Some accept_button [of tk "selectFilePath tk sel d"] show ?thesis
      by (simp add: onFileClicked_def okButton_selectFilePath)
  next
    case False
    with Some show ?thesis
      by (auto simp add: onFileClicked_def Let_def jobs_started_def effects_setDirectoryPath
          ui_setDirectoryPath)
  qed
qed

lemma operation_button:
  "\<not> is_finished op \<Longrightarrow>
   (jobs_started (apply_operation tk d op) = jobs_started d \<and>
      okButton_enabled (ui (apply_operation tk d op)) = okButton_enabled (ui d)) \<or>
   (jobs_started (apply_operation tk d op) = jobs_started d + 1 \<and>
      \<not> okButton_enabled (ui (apply_operation tk d op)))"
proof (cases op)
  case Op_accept
  then show ?thesis using accept_button [of tk d] by simp
next
  case (Op_onFileClicked type f sel)
  then show ?thesis using onFileClicked_button [of tk type f sel d] by simp
next
  case (Op_onFileInfoJobFinished cancelled job)
  assume "\<not> is_finished op"
  with Op_onFileInfoJobFinished show ?thesis by simp
qed (simp_all add: jobs_started_def reject_def emit_def effects_setDirectoryPath
       ui_setDirectoryPath effects_selectFilePath okButton_selectFilePath
       onCurrentRowChanged_def Let_def onSelectionChanged_def effects_onViewModeToggled
       okButton_onViewModeToggled effects_selectNameFilter ui_selectNameFilter setFilter_def
       effects_setViewMode okButton_setViewMode setFileMode_def updateSelectionMode_def
       setAcceptMode_def setNameFilters_def setMimeTypeFilters_def effects_setLabelText
       okButton_setLabelText)

lemma finished_button:
  "jobs_started (onFileInfoJobFinished tk cancelled job d) = jobs_started d \<and>
   okButton_enabled (ui (onFileInfoJobFinished tk cancelled job d))"
  by (simp add: jobs_started_onFileInfoJobFinished okButton_onFileInfoJobFinished)

lemma pending_step:
  assumes "n \<le> 1" and "okButton_enabled (ui d) = (n = 0)"
    and "if is_finished op then 0 < n else True" and "pending_next tk d n op \<le> 1"
  shows "okButton_enabled (ui (apply_operation tk d op)) = (pending_next tk d n op = 0)"
proof (cases "is_finished op")
  case True
  then obtain cancelled job where op: "op = Op_onFileInfoJobFinished cancelled job"
    by (cases op) simp_all
  with assms finished_button [of tk cancelled job d] show ?thesis
    by (simp add: pending_next_def started_by_def)
next
  case False
  with assms operation_button [OF False, of tk d] show ?thesis
    by (auto simp add: pending_next_def started_by_def)
qed

lemma pending_invariant:
  "n \<le> 1 \<Longrightarrow> okButton_enabled (ui d) = (n = 0) \<Longrightarrow> one_job_at_a_time tk d n ops \<Longrightarrow>
   okButton_enabled (ui (run_operations tk d ops)) = (pending_after tk d n ops = 0)"
  unfolding run_operations_def
proof (induction ops arbitrary: d n)
  case Nil
  then show ?case by simp
next
  case (Cons op ops)
  from Cons.prems have a: "if is_finished op then 0 < n else True"
    and b: "pending_next tk d n op \<le> 1"
    and c: "one_job_at_a_time tk (apply_operation tk d op) (pending_next tk d n op) ops"
    by simp_all
  have "okButton_enabled (ui (apply_operation tk d op)) = (pending_next tk d n op = 0)"
    using Cons.prems(1) Cons.prems(2) a b by (rule pending_step)
  from Cons.IH [OF b this c] show ?case by simp
qed

lemma one_job_at_a_time_take:
  "one_job_at_a_time tk d n ops \<Longrightarrow> one_job_at_a_time tk d n (take k ops)"
proof (induction ops arbitrary: d n k)
  case Nil
  then show ?case by simp
next
  case (Cons op ops)
  then show ?case by (cases k) simp_all
qed

lemma okButton_new: "okButton_enabled (ui (FileDialog_new tk setupUi dir)) = okButton_enabled setupUi"
  by (simp add: FileDialog_new_def Let_def ui_setDirectoryPath okButton_setViewMode
      updateSelectionMode_def folderView_setViewMode_def)

lemma single_job_button:
  assumes "okButton_enabled setupUi"
    and "one_job_at_a_time tk (FileDialog_new tk setupUi dir) 0 ops"
  shows "okButton_enabled (ui (run_operations tk (FileDialog_new tk setupUi dir) (take k ops)))
    = (pending_after tk (FileDialog_new tk setupUi dir) 0 (take k ops) = 0)"
proof -
  have "one_job_at_a_time tk (FileDialog_new tk setupUi dir) 0 (take k ops)"
    using assms(2) by (rule one_job_at_a_time_take)
  moreover have "okButton_enabled (ui (FileDialog_new tk setupUi dir)) = ((0::nat) = 0)"
    using assms(1) by (simp add: okButton_new)
  ultimately show ?thesis
    by (intro pending_invariant) simp_all
qed

lemmas example_eval = run_operations_def example_dialog_value example_file_def
  setFileMode_def updateSelectionMode_def onSelectionChanged_def Let_def example_toolkit_def
  accept_def accept_check_def okButton_setEnabled_def accept_name_def emit_def parseNames_def
  indexOf_def lastIndexOf_def dquote_def onFileClicked_def selectFilePath_def
  pending_next_def started_by_def jobs_started_def

lemma example_job_zz:
  "example_job [''/home/u/zz''] =
     \<lparr>paths = [''/home/u/zz''],
      results = [\<lparr>fi_path = [], isDir = False, isShortcut = False, displayName = []\<rparr>],
      emitted = [GotInfo ''/home/u/zz''
                   \<lparr>fi_path = [], isDir = False, isShortcut = False, displayName = []\<rparr>,
                 Finished]\<rparr>"
  by (simp add: example_job_def run_def run_body_def Let_def example_env_def)

lemma example_job_a:
  "example_job [''/home/u/a.txt''] =
     \<lparr>paths = [''/home/u/a.txt''],
      results = [\<lparr>fi_path = ''/home/u/a.txt'', isDir = False, isShortcut = False,
                  displayName = ''a.txt''\<rparr>],
      emitted = [GotInfo ''/home/u/a.txt''
                   \<lparr>fi_path = ''/home/u/a.txt'', isDir = False, isShortcut = False,
                    displayName = ''a.txt''\<rparr>,
                 Finished]\<rparr>"
  by (simp add: example_job_def run_def run_body_def Let_def example_env_def)

lemma example_single_ok:
  "one_job_at_a_time example_toolkit (FileDialog_new example_toolkit example_ui ''/home/u'') 0
     example_single"
  unfolding example_single_def example_job_a example_dialog_def [symmetric]
  by (simp add: example_eval onFileInfoJobFinished_def validate_loop.simps doAccept_def)

text \<open>
  C5, as the code has it. As long as at most one file-info job is pending at a time, the
  Ok button is disabled exactly while a job is pending: on a dialog constructed with the
  Ok button enabled, after every prefix of a sequence of operations in which
  \<^verbatim>\<open>accept()\<close> is not entered again before the \<^verbatim>\<open>finished\<close> signal of the job it started is
  handled, the button is enabled iff no job is pending. When \<^verbatim>\<open>accept()\<close> starts a job it
  has disabled the Ok button before; when it returns early it starts no job and leaves
  the widgets as they are. \<^verbatim>\<open>onFileInfoJobFinished\<close> enables the button on every outcome,
  as its last step. No other operation changes whether the button is enabled
  (\<^verbatim>\<open>onFileClicked\<close> may call \<^verbatim>\<open>accept()\<close>).
\<close>

theorem okButton_disabled_during_validation:
  "(okButton_enabled setupUi \<and> one_job_at_a_time tk (FileDialog_new tk setupUi dir) 0 ops \<longrightarrow>
      okButton_enabled (ui (run_operations tk (FileDialog_new tk setupUi dir) (take k ops)))
        = (pending_after tk (FileDialog_new tk setupUi dir) 0 (take k ops) = 0)) \<and>
   (fileName_text (ui d) \<noteq> [] \<or> fileMode d = Directory \<longrightarrow>
      okButton_enabled (ui (accept tk d)) = False \<and>
      effects (accept tk d)
        = effects d @ [OkButton_setEnabled False,
            RunAsync (pathListFromQUrls tk (selectedFiles (accept tk d)))]) \<and>
   (fileName_text (ui d) = [] \<and> fileMode d \<noteq> Directory \<longrightarrow>
      ui (accept tk d) = ui d \<and>
      effects (accept tk d)
        = effects d @ [MessageBox_critical ''Error'' ''Please select a file'']) \<and>
   okButton_enabled (ui (onFileInfoJobFinished tk cancelled job d)) = True \<and>
   last (effects (onFileInfoJobFinished tk cancelled job d)) = OkButton_setEnabled True \<and>
   (case op of
      Op_accept \<Rightarrow> True
    | Op_onFileClicked type f sel \<Rightarrow> True
    | Op_onFileInfoJobFinished c j \<Rightarrow> True
    | _ \<Rightarrow> okButton_enabled (ui (apply_operation tk d op)) = okButton_enabled (ui d))"
proof (intro conjI impI)
  assume "okButton_enabled setupUi \<and> one_job_at_a_time tk (FileDialog_new tk setupUi dir) 0 ops"
  then show "okButton_enabled (ui (run_operations tk (FileDialog_new tk setupUi dir) (take k ops)))
      = (pending_after tk (FileDialog_new tk setupUi dir) 0 (take k ops) = 0)"
    by (intro single_job_button) simp_all
next
  assume "fileName_text (ui d) \<noteq> [] \<or> fileMode d = Directory"
  then show "okButton_enabled (ui (accept tk d)) = False"
    by (simp add: accept_starts_job)
next
  assume "fileName_text (ui d) \<noteq> [] \<or> fileMode d = Directory"
  then show "effects (accept tk d)
      = effects d @ [OkButton_setEnabled False,
          RunAsync (pathListFromQUrls tk (selectedFiles (accept tk d)))]"
    by (simp add: accept_starts_job)
next
  assume "fileName_text (ui d) = [] \<and> fileMode d \<noteq> Directory"
  then show "ui (accept tk d) = ui d"
    by (simp add: accept_no_name emit_def)
next
  assume "fileName_text (ui d) = [] \<and> fileMode d \<noteq> Directory"
  then show "effects (accept tk d)
      = effects d @ [MessageBox_critical ''Error'' ''Please select a file'']"
    by (simp add: accept_no_name emit_def)
next
  show "okButton_enabled (ui (onFileInfoJobFinished tk cancelled job d)) = True"
    by (rule okButton_onFileInfoJobFinished)
next
  show "last (effects (onFileInfoJobFinished tk cancelled job d)) = OkButton_setEnabled True"
    by (simp add: onFileInfoJobFinished_def okButton_setEnabled_def emit_def Let_def)
next
  show "case op of
      Op_accept \<Rightarrow> True
    | Op_onFileClicked type f sel \<Rightarrow> True
    | Op_onFileInfoJobFinished c j \<Rightarrow> True
    | _ \<Rightarrow> okButton_enabled (ui (apply_operation tk d op)) = okButton_enabled (ui d)"
    by (rule okButton_other_operations)
qed

theorem okButton_disabled_during_validation_witness:
  "\<not> okButton_enabled (ui (run_operations example_toolkit example_dialog (take 2 example_single))) \<and>
   pending_after example_toolkit example_dialog 0 (take 2 example_single) = 1 \<and>
   okButton_enabled (ui (run_operations example_toolkit example_dialog (take 3 example_single))) \<and>
   pending_after example_toolkit example_dialog 0 (take 3 example_single) = 0 \<and>
   okButton_enabled (ui (accept example_toolkit (example_typed ''notes''))) = False \<and>
   effects (accept example_toolkit (example_typed ''notes''))
     = [DirectoryEntered, OkButton_setEnabled False, RunAsync [''/home/u/notes'']] \<and>
   ui (accept example_toolkit example_dialog) = ui example_dialog \<and>
   effects (accept example_toolkit example_dialog)
     = [DirectoryEntered, MessageBox_critical ''Error'' ''Please select a file''] \<and>
   okButton_enabled (ui (onFileInfoJobFinished example_toolkit False
     (example_job [''/home/u/notes'']) (accept example_toolkit (example_typed ''notes''))))"
proof -
  have h: "okButton_enabled example_ui \<and>
      one_job_at_a_time example_toolkit (FileDialog_new example_toolkit example_ui ''/home/u'') 0
        example_single"
    using example_single_ok by (simp add: example_ui_def)
  have p2: "pending_after example_toolkit example_dialog 0 (take 2 example_single) = 1"
    unfolding example_single_def example_job_a by (simp add: example_eval)
  have p3: "pending_after example_toolkit example_dialog 0 (take 3 example_single) = 0"
    unfolding example_single_def example_job_a
    by (simp add: example_eval onFileInfoJobFinished_def validate_loop.simps doAccept_def)
  have trace: "\<not> okButton_enabled (ui (run_operations example_toolkit example_dialog (take 2 example_single))) \<and>
     pending_after example_toolkit example_dialog 0 (take 2 example_single) = 1 \<and>
     okButton_enabled (ui (run_operations example_toolkit example_dialog (take 3 example_single))) \<and>
     pending_after example_toolkit example_dialog 0 (take 3 example_single) = 0"
    using h p2 p3
      okButton_disabled_during_validation [of example_ui example_toolkit "''/home/u''"
        example_single 2]
      okButton_disabled_during_validation [of example_ui example_toolkit "''/home/u''"
        example_single 3]
    by (simp add: example_dialog_def)

  have h1: "fileName_text (ui (example_typed ''notes'')) \<noteq> [] \<or>
      fileMode (example_typed ''notes'') = Directory"
    by (simp add: example_typed_def)
  have h2: "fileName_text (ui example_dialog) = [] \<and> fileMode example_dialog \<noteq> Directory"
    by (simp add: example_dialog_value)
  have s: "pathListFromQUrls example_toolkit
      (selectedFiles (accept example_toolkit (example_typed ''notes''))) = [''/home/u/notes'']"
    by (simp add: accept_def accept_check_def okButton_setEnabled_def accept_name_def Let_def
        emit_def example_typed_def
        example_dialog_value parseNames_def indexOf_def lastIndexOf_def dquote_def
        example_toolkit_def)
  have e: "effects (example_typed ''notes'') = [DirectoryEntered]"
      "effects example_dialog = [DirectoryEntered]"
    by (simp_all add: example_typed_def example_dialog_value)
  have one_step: "okButton_enabled (ui (accept example_toolkit (example_typed ''notes''))) = False \<and>
     effects (accept example_toolkit (example_typed ''notes''))
       = [DirectoryEntered, OkButton_setEnabled False, RunAsync [''/home/u/notes'']] \<and>
     ui (accept example_toolkit example_dialog) = ui example_dialog \<and>
     effects (accept example_toolkit example_dialog)
       = [DirectoryEntered, MessageBox_critical ''Error'' ''Please select a file''] \<and>
     okButton_enabled (ui (onFileInfoJobFinished example_toolkit False
       (example_job [''/home/u/notes'']) (accept example_toolkit (example_typed ''notes''))))"
    using h1 h2 s e
      okButton_disabled_during_validation [where d = "example_typed ''notes''"
        and tk = example_toolkit]
      okButton_disabled_during_validation [where d = example_dialog and tk = example_toolkit]
      okButton_disabled_during_validation [where
        d = "accept example_toolkit (example_typed ''notes'')" and tk = example_toolkit
        and cancelled = False and job = "example_job [''/home/u/notes'']"]
    by simp
  from trace one_step show ?thesis by blast
qed

text \<open>
  C5 as stated fails when jobs overlap: \<^verbatim>\<open>onFileClicked\<close> calls \<^verbatim>\<open>accept()\<close> whether or not
  a job is pending. After \<open>example_overlap\<close> two jobs have been started and one
  \<^verbatim>\<open>finished\<close> signal handled, so one validation is still running, and the Ok button is
  enabled.
\<close>

theorem okButton_overlapping_jobs_counterexample:
  "pending_after example_toolkit example_dialog 0 (take 4 example_overlap) = 2 \<and>
   pending_after example_toolkit example_dialog 0 example_overlap = 1 \<and>
   okButton_enabled (ui (run_operations example_toolkit example_dialog example_overlap)) \<and>
   effects (run_operations example_toolkit example_dialog example_overlap)
     = [DirectoryEntered, OkButton_setEnabled False, RunAsync [''/home/u/zz''],
        OkButton_setEnabled False, RunAsync [''/home/u/zz''],
        MessageBox_critical ''Error''
          (''Path '' @ [dquote] @ ''/home/u/zz'' @ [dquote] @ '' does not exist''),
        OkButton_setEnabled True]"
proof -
  have v: "validate_loop example_toolkit ExistingFile [''/home/u/zz'']
      [\<lparr>fi_path = [], isDir = False, isShortcut = False, displayName = []\<rparr>] 0
      = ''Path '' @ [dquote] @ ''/home/u/zz'' @ [dquote] @ '' does not exist''"
    by (simp add: validate_loop.simps example_toolkit_def)
  show ?thesis
    unfolding example_overlap_def example_job_zz
    using v by (simp add: example_eval onFileInfoJobFinished_def)
qed

subsection \<open>Validation of the selected paths\<close>

lemma path_passes_step:
  "path_passes mode ps files i \<Longrightarrow> loop_step mode ps files i \<noteq> None"
  by (auto simp add: path_passes_def loop_step_def split: if_splits)

lemma loop_step_passes:
  "mode \<noteq> AnyFile \<Longrightarrow> loop_step mode ps files i = Some k \<Longrightarrow>
   k = i + 1 \<and> path_passes mode ps files i"
  by (auto simp add: path_passes_def loop_step_def split: if_splits)

lemma validate_loop_break:
  "i < length ps \<Longrightarrow> loop_step mode ps files i = None \<Longrightarrow>
   validate_loop tk mode ps files i \<noteq> []"
  by (subst validate_loop.simps) (auto simp add: loop_step_def Let_def split: if_splits)

lemma validate_loop_end: "\<not> i < length ps \<Longrightarrow> validate_loop tk mode ps files i = []"
  by (subst validate_loop.simps) simp

lemma validate_loop_all_pass:
  "(\<And>k. i \<le> k \<Longrightarrow> k < length ps \<Longrightarrow> path_passes mode ps files k) \<Longrightarrow>
   validate_loop tk mode ps files i = []"
proof (induction "length ps - i" arbitrary: i rule: less_induct)
  case less
  show ?case
  proof (cases "i < length ps")
    case False
    then show ?thesis by (rule validate_loop_end)
  next
    case True
    with less.prems have "path_passes mode ps files i" by simp
    then have "loop_step mode ps files i \<noteq> None"
      by (rule path_passes_step)
    then obtain k where k: "loop_step mode ps files i = Some k"
      by (cases "loop_step mode ps files i") simp_all
    then have ik: "i < k" by (rule loop_step_greater)
    with True have "length ps - k < length ps - i" by simp
    moreover have "path_passes mode ps files m" if "k \<le> m" "m < length ps" for m
      using that ik less.prems by simp
    ultimately have "validate_loop tk mode ps files k = []"
      by (rule less.hyps)
    with True k show ?thesis by (simp add: validate_loop_step)
  qed
qed

lemma validate_loop_passed:
  "mode \<noteq> AnyFile \<Longrightarrow> validate_loop tk mode ps files i = [] \<Longrightarrow>
   i \<le> k \<Longrightarrow> k < length ps \<Longrightarrow> path_passes mode ps files k"
proof (induction "length ps - i" arbitrary: i rule: less_induct)
  case less
  from less.prems have il: "i < length ps" by simp
  have "loop_step mode ps files i \<noteq> None"
    using validate_loop_break [OF il, of mode files tk] less.prems(2) by auto
  then obtain j where j: "loop_step mode ps files i = Some j"
    by (cases "loop_step mode ps files i") simp_all
  from loop_step_passes [OF less.prems(1) j]
  have ji: "j = i + 1" and pi: "path_passes mode ps files i"
    by simp_all
  show ?case
  proof (cases "k = i")
    case True
    with pi show ?thesis by simp
  next
    case False
    with less.prems ji have "j \<le> k" by simp
    moreover from il ji have "length ps - j < length ps - i" by simp
    moreover from less.prems(2) il j have "validate_loop tk mode ps files j = []"
      by (simp add: validate_loop_step)
    ultimately show ?thesis
      using less.hyps [of j] less.prems(1) less.prems(4) by simp
  qed
qed

lemma all_pass_iff:
  "all_pass mode ps files = (\<forall>k<length ps. path_passes mode ps files k)"
  by (auto simp add: all_pass_def list_all_iff)

text \<open>
  Where the accept flow does validate every path. When the job was not cancelled and
  every path passes the validation, the dialog is accepted (in every file mode). In a
  file mode other than \<open>AnyFile\<close>, when some path does not pass, the dialog is not
  accepted: the message box shows the error and no file stays selected.
\<close>

theorem accept_flow_validation:
  "(all_pass (fileMode d) (paths job) (results job) \<longrightarrow>
      onFileInfoJobFinished tk False job d
        = okButton_setEnabled True (doAccept d)) \<and>
   (fileMode d \<noteq> AnyFile \<and> \<not> all_pass (fileMode d) (paths job) (results job) \<longrightarrow>
      validate_loop tk (fileMode d) (paths job) (results job) 0 \<noteq> [] \<and>
      selectedFiles (onFileInfoJobFinished tk False job d) = [] \<and>
      effects (onFileInfoJobFinished tk False job d) = effects d @
        [MessageBox_critical ''Error''
           (validate_loop tk (fileMode d) (paths job) (results job) 0),
         OkButton_setEnabled True])"
proof (intro conjI impI)
  assume "all_pass (fileMode d) (paths job) (results job)"
  then have "validate_loop tk (fileMode d) (paths job) (results job) 0 = []"
    by (intro validate_loop_all_pass) (simp add: all_pass_iff)
  then show "onFileInfoJobFinished tk False job d
      = okButton_setEnabled True (doAccept d)"
    by (rule onFileInfoJobFinished_ok)
next
  assume a: "fileMode d \<noteq> AnyFile \<and> \<not> all_pass (fileMode d) (paths job) (results job)"
  then obtain k where k: "k < length (paths job)"
      "\<not> path_passes (fileMode d) (paths job) (results job) k"
    by (auto simp add: all_pass_iff)
  with a show e: "validate_loop tk (fileMode d) (paths job) (results job) 0 \<noteq> []"
    using validate_loop_passed [of "fileMode d" tk "paths job" "results job" 0 k] by auto
  from e show "selectedFiles (onFileInfoJobFinished tk False job d) = []"
    by (simp add: onFileInfoJobFinished_error)
  from e show "effects (onFileInfoJobFinished tk False job d) = effects d @
        [MessageBox_critical ''Error''
           (validate_loop tk (fileMode d) (paths job) (results job) 0),
         OkButton_setEnabled True]"
    by (simp add: onFileInfoJobFinished_error)
qed

theorem accept_flow_validation_witness:
  "onFileInfoJobFinished example_toolkit False (example_job [''/home/u/a.txt''])
     (example_dialog\<lparr>fileMode := ExistingFile, selectedFiles := [''file:///home/u/a.txt'']\<rparr>)
   = okButton_setEnabled True (doAccept (example_dialog\<lparr>fileMode := ExistingFile,
        selectedFiles := [''file:///home/u/a.txt'']\<rparr>)) \<and>
   effects (onFileInfoJobFinished example_toolkit False (example_job [''/home/u/docs''])
     (example_dialog\<lparr>fileMode := ExistingFile, selectedFiles := [''file:///home/u/docs'']\<rparr>))
   = [DirectoryEntered,
      MessageBox_critical ''Error'' ([dquote] @ ''/home/u/docs'' @ [dquote] @ '' is not a file''),
      OkButton_setEnabled True]"
proof -
  have j1: "example_job [''/home/u/a.txt''] =
     \<lparr>paths = [''/home/u/a.txt''],
      results = [\<lparr>fi_path = ''/home/u/a.txt'', isDir = False, isShortcut = False,
                  displayName = ''a.txt''\<rparr>],
      emitted = [GotInfo ''/home/u/a.txt''
                   \<lparr>fi_path = ''/home/u/a.txt'', isDir = False, isShortcut = False,
                    displayName = ''a.txt''\<rparr>,
                 Finished]\<rparr>"
    by (simp add: example_job_def run_def run_body_def Let_def example_env_def)
  have j2: "example_job [''/home/u/docs''] =
     \<lparr>paths = [''/home/u/docs''],
      results = [\<lparr>fi_path = ''/home/u/docs'', isDir = True, isShortcut = False,
                  displayName = ''docs''\<rparr>],
      emitted = [GotInfo ''/home/u/docs''
                   \<lparr>fi_path = ''/home/u/docs'', isDir = True, isShortcut = False,
                    displayName = ''docs''\<rparr>,
                 Finished]\<rparr>"
    by (simp add: example_job_def run_def run_body_def Let_def example_env_def)
  have h1: "all_pass (fileMode (example_dialog\<lparr>fileMode := ExistingFile,
        selectedFiles := [''file:///home/u/a.txt'']\<rparr>))
      (paths (example_job [''/home/u/a.txt''])) (results (example_job [''/home/u/a.txt'']))"
    by (simp add: j1 all_pass_def path_passes_def)
  have h2: "fileMode (example_dialog\<lparr>fileMode := ExistingFile,
        selectedFiles := [''file:///home/u/docs'']\<rparr>) \<noteq> AnyFile \<and>
      \<not> all_pass (fileMode (example_dialog\<lparr>fileMode := ExistingFile,
        selectedFiles := [''file:///home/u/docs'']\<rparr>))
      (paths (example_job [''/home/u/docs''])) (results (example_job [''/home/u/docs'']))"
    by (simp add: j2 all_pass_def path_passes_def)
  have v: "validate_loop example_toolkit ExistingFile [''/home/u/docs'']
      [\<lparr>fi_path = ''/home/u/docs'', isDir = True, isShortcut = False, displayName = ''docs''\<rparr>] 0
      = [dquote] @ ''/home/u/docs'' @ [dquote] @ '' is not a file''"
    by (simp add: validate_loop.simps example_toolkit_def)
  have e: "effects example_dialog = [DirectoryEntered]"
    by (simp add: example_dialog_value)
  show ?thesis
    using h1 h2 e
      accept_flow_validation [of
        "example_dialog\<lparr>fileMode := ExistingFile,
           selectedFiles := [''file:///home/u/a.txt'']\<rparr>"
        "example_job [''/home/u/a.txt'']" example_toolkit]
      accept_flow_validation [of
        "example_dialog\<lparr>fileMode := ExistingFile,
           selectedFiles := [''file:///home/u/docs'']\<rparr>"
        "example_job [''/home/u/docs'']" example_toolkit]
    by (simp add: j2 v)
qed

end
